theory Spec2Isabelle
  imports Complex_Main "HOL-Library.Multiset" "HOL-Library.AList"
begin

section \<open>Python values used by the campaign code\<close>

text \<open>
  The exceptions the modelled code can raise.  \<open>Raised msg\<close> stands for an exception of a
  collaborator (an LLM call, a file or network operation) carrying its message.
\<close>

datatype py_error = ZeroDivisionError | TypeError | Raised string

text \<open>
  A Python \<open>dict\<close> whose iteration order matters is an association list in insertion
  order with distinct keys: \<open>map_of\<close> reads a key, \<open>AList.update\<close> overwrites a key in
  place or appends a new one at the end, as assignment to a dict does.
\<close>

definition dict_get :: "('k \<times> 'v) list \<Rightarrow> 'k \<Rightarrow> 'v \<Rightarrow> 'v" where
  "dict_get d k dflt = (case map_of d k of None \<Rightarrow> dflt | Some v \<Rightarrow> v)"

text \<open>
  Slices \<open>xs[a:b]\<close>, \<open>xs[a:]\<close> and \<open>xs[:b]\<close>: a negative bound counts from the end, and
  every bound is clipped to \<open>0 .. len(xs)\<close>.
\<close>

definition slice_index :: "nat \<Rightarrow> int \<Rightarrow> nat" where
  "slice_index len i = (if i < 0 then nat (max 0 (i + int len)) else min len (nat i))"

definition py_slice :: "'a list \<Rightarrow> int \<Rightarrow> int \<Rightarrow> 'a list" where
  "py_slice xs a b =
     (let lo = slice_index (length xs) a; hi = slice_index (length xs) b
      in take (hi - lo) (drop lo xs))"

definition py_slice_from :: "'a list \<Rightarrow> int \<Rightarrow> 'a list" where
  "py_slice_from xs a = drop (slice_index (length xs) a) xs"

definition py_slice_to :: "'a list \<Rightarrow> int \<Rightarrow> 'a list" where
  "py_slice_to xs b = take (slice_index (length xs) b) xs"

text \<open>
  \<open>random.shuffle(x)\<close> of the standard library:
  \<^verbatim>\<open>for i in reversed(range(1, len(x))): j = randbelow(i + 1); x[i], x[j] = x[j], x[i]\<close>.
  The random source is the parameter \<open>randbelow\<close>; its draw for the bound \<open>i + 1\<close> is
  reduced into \<open>0 .. i\<close>.
\<close>

fun shuffle_from :: "(nat \<Rightarrow> nat) \<Rightarrow> nat \<Rightarrow> 'a list \<Rightarrow> 'a list" where
  "shuffle_from randbelow 0 x = x"
| "shuffle_from randbelow (Suc i) x =
     (let j = randbelow (Suc i + 1) mod (Suc i + 1)
      in shuffle_from randbelow i (x[Suc i := x ! j, j := x ! Suc i]))"

definition shuffle :: "(nat \<Rightarrow> nat) \<Rightarrow> 'a list \<Rightarrow> 'a list" where
  "shuffle randbelow x = shuffle_from randbelow (length x - 1) x"


section \<open>ABTestingAgent (agents/ab\_testing\_agent.py)\<close>

subsection \<open>create\_test\_groups\<close>

text \<open>
  The loop \<^verbatim>\<open>for i, variant in enumerate(variant_labels)\<close>: the last label takes
  \<^verbatim>\<open>recipients[start_idx:]\<close>, every other label
  \<^verbatim>\<open>recipients[start_idx:start_idx + group_size]\<close>.  \<open>last_idx\<close> is
  \<^verbatim>\<open>len(variant_labels) - 1\<close>.
\<close>

fun assign_groups ::
  "'a list \<Rightarrow> int \<Rightarrow> int \<Rightarrow> nat \<Rightarrow> string list \<Rightarrow> (string \<times> 'a list) list" where
  "assign_groups recipients group_size last_idx i [] = []"
| "assign_groups recipients group_size last_idx i (variant # rest) =
     (let start_idx = int i * group_size
      in (variant,
          if int i = last_idx then py_slice_from recipients start_idx
          else py_slice recipients start_idx (start_idx + group_size))
         # assign_groups recipients group_size last_idx (Suc i) rest)"

text \<open>
  \<open>create_test_groups\<close>: \<^verbatim>\<open>num_variants = min(num_variants, 3)\<close>, the in-place
  shuffle, \<^verbatim>\<open>group_size = len(recipients) // num_variants\<close> (which raises
  \<open>ZeroDivisionError\<close> for 0; \<open>div\<close> on \<open>int\<close> is Python's floor division), then the
  labels \<^verbatim>\<open>["A", "B", "C"][:num_variants]\<close> and the loop.  The result dict is in
  insertion order.
\<close>

definition create_test_groups ::
  "(nat \<Rightarrow> nat) \<Rightarrow> 'a list \<Rightarrow> int \<Rightarrow> py_error + (string \<times> 'a list) list" where
  "create_test_groups randbelow recipients num_variants =
     (let num_variants = min num_variants 3;
          recipients = shuffle randbelow recipients
      in if num_variants = 0 then Inl ZeroDivisionError
         else
           let group_size = int (length recipients) div num_variants;
               variant_labels = py_slice_to [''A'', ''B'', ''C''] num_variants
           in Inr (assign_groups recipients group_size (int (length variant_labels) - 1) 0
                     variant_labels))"


subsection \<open>test\_results, track\_metric and record\_event\<close>

text \<open>
  One variant's entry of \<open>test_results[campaign_id]["variants"]\<close>: the dict with the keys
  \<open>metrics\<close>, \<open>sent\<close>, \<open>opened\<close>, \<open>clicked\<close>, \<open>converted\<close>.  No code adds or removes a key,
  so the entry is a record.  \<open>test_results\<close> maps a campaign id to its variants, in the
  order in which the variants were first recorded (\<open>start_time\<close> is read by no modelled
  code and is left out).
\<close>

record variant_data =
  metrics :: "(string \<times> rat) list"
  sent :: int
  opened :: int
  clicked :: int
  converted :: int

type_synonym test_results = "(string \<times> (string \<times> variant_data) list) list"

definition new_variant :: variant_data where
  "new_variant = \<lparr>metrics = [], sent = 0, opened = 0, clicked = 0, converted = 0\<rparr>"

definition variants_of :: "test_results \<Rightarrow> string \<Rightarrow> (string \<times> variant_data) list" where
  "variants_of tr campaign_id = dict_get tr campaign_id []"

definition variant_of :: "test_results \<Rightarrow> string \<Rightarrow> string \<Rightarrow> variant_data" where
  "variant_of tr campaign_id variant = dict_get (variants_of tr campaign_id) variant new_variant"

text \<open>
  The two guards that open both \<open>track_metric\<close> and \<open>record_event\<close>: create the campaign
  entry, then the variant entry, when missing.
\<close>

definition ensure_variant :: "test_results \<Rightarrow> string \<Rightarrow> string \<Rightarrow> test_results" where
  "ensure_variant tr campaign_id variant =
     (let tr = (if map_of tr campaign_id = None then tr @ [(campaign_id, [])] else tr);
          variants = variants_of tr campaign_id;
          variants = (if map_of variants variant = None
                      then variants @ [(variant, new_variant)] else variants)
      in AList.update campaign_id variants tr)"

definition set_variant :: "test_results \<Rightarrow> string \<Rightarrow> string \<Rightarrow> variant_data \<Rightarrow> test_results" where
  "set_variant tr campaign_id variant data =
     AList.update campaign_id (AList.update variant data (variants_of tr campaign_id)) tr"

definition track_metric :: "test_results \<Rightarrow> string \<Rightarrow> string \<Rightarrow> string \<Rightarrow> rat \<Rightarrow> test_results" where
  "track_metric tr campaign_id variant metric v =
     (let tr = ensure_variant tr campaign_id variant;
          data = variant_of tr campaign_id variant
      in set_variant tr campaign_id variant
           (data\<lparr>metrics := AList.update metric v (metrics data)\<rparr>))"

text \<open>
  \<open>record_event\<close>: after the guards, \<^verbatim>\<open>if event in variants[variant]: variants[variant][event] += count\<close>
  (\<open>cnt\<close> is the argument \<open>count\<close>).
  A name that is no key of the entry (such as \<open>bounced\<close>) is ignored; the key
  \<open>metrics\<close> holds a dict, and adding an int to it raises \<open>TypeError\<close>.  The result is
  the agent's state after the call and the exception, if one was raised.
\<close>

definition record_event ::
  "test_results \<Rightarrow> string \<Rightarrow> string \<Rightarrow> string \<Rightarrow> int \<Rightarrow> test_results \<times> py_error option" where
  "record_event tr campaign_id variant event cnt =
     (let tr = ensure_variant tr campaign_id variant;
          data = variant_of tr campaign_id variant
      in if event = ''sent''
         then (set_variant tr campaign_id variant (data\<lparr>sent := sent data + cnt\<rparr>), None)
         else if event = ''opened''
         then (set_variant tr campaign_id variant (data\<lparr>opened := opened data + cnt\<rparr>), None)
         else if event = ''clicked''
         then (set_variant tr campaign_id variant (data\<lparr>clicked := clicked data + cnt\<rparr>), None)
         else if event = ''converted''
         then (set_variant tr campaign_id variant (data\<lparr>converted := converted data + cnt\<rparr>), None)
         else if event = ''metrics'' then (tr, Some TypeError)
         else (tr, None))"

text \<open>
  The stored value of a counter, read the way \<open>process_results\<close> reads it:
  \<^verbatim>\<open>test_results.get(campaign_id, {}).get("variants", {}).get(variant, {}).get(event, 0)\<close>.
\<close>

definition stored_count :: "test_results \<Rightarrow> string \<Rightarrow> string \<Rightarrow> string \<Rightarrow> int" where
  "stored_count tr campaign_id variant event =
     (case map_of tr campaign_id of
        None \<Rightarrow> 0
      | Some variants \<Rightarrow>
          (case map_of variants variant of
             None \<Rightarrow> 0
           | Some data \<Rightarrow>
               if event = ''sent'' then sent data
               else if event = ''opened'' then opened data
               else if event = ''clicked'' then clicked data
               else if event = ''converted'' then converted data
               else 0))"

subsection \<open>calculate\_metrics and get\_winner\<close>

text \<open>
  One variant's entry of the dict \<open>calculate_metrics\<close> returns.  The rates are Python
  floats: \<^verbatim>\<open>round(opened / sent * 100, 2)\<close> in binary64 arithmetic.  A finite float
  is a rational number, so a rate is a \<open>rat\<close>; the float computation itself, the value of
  \<^verbatim>\<open>round(a / b * 100, 2)\<close> for integers \<open>a\<close> and \<open>b \<noteq> 0\<close>, is the parameter \<open>pct\<close>
  of the model.
\<close>

record variant_rates =
  r_sent :: int
  r_opened :: int
  r_clicked :: int
  r_converted :: int
  open_rate :: rat
  click_rate :: rat
  conversion_rate :: rat
  click_through_rate :: rat

definition rates_of :: "(int \<Rightarrow> int \<Rightarrow> rat) \<Rightarrow> variant_data \<Rightarrow> variant_rates" where
  "rates_of pct data =
     \<lparr>r_sent = sent data, r_opened = opened data, r_clicked = clicked data,
      r_converted = converted data,
      open_rate = (if sent data > 0 then pct (opened data) (sent data) else 0),
      click_rate = (if sent data > 0 then pct (clicked data) (sent data) else 0),
      conversion_rate = (if sent data > 0 then pct (converted data) (sent data) else 0),
      click_through_rate = (if opened data > 0 then pct (clicked data) (opened data) else 0)\<rparr>"

text \<open>
  \<open>calculate_metrics\<close> returns \<^verbatim>\<open>{"error": "Campaign not found"}\<close> for an unknown
  campaign, else one entry per variant, in the order of the variants dict.
\<close>

datatype metrics_result = CampaignNotFound | Results "(string \<times> variant_rates) list"

definition calculate_metrics ::
  "(int \<Rightarrow> int \<Rightarrow> rat) \<Rightarrow> test_results \<Rightarrow> string \<Rightarrow> metrics_result" where
  "calculate_metrics pct tr campaign_id =
     (case map_of tr campaign_id of
        None \<Rightarrow> CampaignNotFound
      | Some variants \<Rightarrow>
          Results (map (\<lambda>(variant, data). (variant, rates_of pct data)) variants))"

text \<open>\<^verbatim>\<open>data.get(primary_metric, 0)\<close> on an entry of the result.\<close>

definition metric_get :: "variant_rates \<Rightarrow> string \<Rightarrow> rat" where
  "metric_get data primary_metric =
     (if primary_metric = ''sent'' then of_int (r_sent data)
      else if primary_metric = ''opened'' then of_int (r_opened data)
      else if primary_metric = ''clicked'' then of_int (r_clicked data)
      else if primary_metric = ''converted'' then of_int (r_converted data)
      else if primary_metric = ''open_rate'' then open_rate data
      else if primary_metric = ''click_rate'' then click_rate data
      else if primary_metric = ''conversion_rate'' then conversion_rate data
      else if primary_metric = ''click_through_rate'' then click_through_rate data
      else 0)"

text \<open>
  The loop of \<open>get_winner\<close> over \<^verbatim>\<open>metrics.items()\<close>, with the running \<open>winner\<close> and
  \<open>best_score\<close>.
\<close>

fun winner_loop ::
  "string \<Rightarrow> (string \<times> variant_rates) list \<Rightarrow> string option \<Rightarrow> rat \<Rightarrow> string option" where
  "winner_loop primary_metric [] winner best_score = winner"
| "winner_loop primary_metric ((variant, data) # rest) winner best_score =
     (let score = metric_get data primary_metric
      in if score > best_score then winner_loop primary_metric rest (Some variant) score
         else winner_loop primary_metric rest winner best_score)"

text \<open>
  \<open>get_winner\<close>: \<^verbatim>\<open>if "error" in metrics: return None\<close> holds for an unknown campaign
  and also when a variant is itself labelled \<open>error\<close>; otherwise the loop starts from
  \<^verbatim>\<open>winner = None, best_score = -1\<close>.
\<close>

definition get_winner ::
  "(int \<Rightarrow> int \<Rightarrow> rat) \<Rightarrow> test_results \<Rightarrow> string \<Rightarrow> string \<Rightarrow> string option" where
  "get_winner pct tr campaign_id primary_metric =
     (case calculate_metrics pct tr campaign_id of
        CampaignNotFound \<Rightarrow> None
      | Results ms \<Rightarrow>
          if ''error'' \<in> set (map fst ms) then None
          else winner_loop primary_metric ms None (- 1))"

text \<open>The score \<open>get_winner\<close> compares for the \<open>i\<close>-th variant of a variants dict.\<close>

definition score_at ::
  "(int \<Rightarrow> int \<Rightarrow> rat) \<Rightarrow> string \<Rightarrow> (string \<times> variant_data) list \<Rightarrow> nat \<Rightarrow> rat" where
  "score_at pct primary_metric variants i =
     metric_get (rates_of pct (snd (variants ! i))) primary_metric"


section \<open>Properties of the A/B testing agent\<close>

subsection \<open>Shuffling permutes\<close>

lemma length_shuffle_from [simp]: "length (shuffle_from r i x) = length x"
  by (induction i arbitrary: x) (auto simp: Let_def)

lemma mset_shuffle_from: "i < length x \<Longrightarrow> mset (shuffle_from r i x) = mset x"
proof (induction i arbitrary: x)
  case 0
  then show ?case by simp
next
  case (Suc i)
  let ?j = "r (Suc i + 1) mod (Suc i + 1)"
  have "?j < Suc i + 1" by simp
  then have j: "?j < length x" using Suc.prems by linarith
  have "mset (x[Suc i := x ! ?j, ?j := x ! Suc i]) = mset x"
    using Suc.prems j by (simp add: mset_swap)
  then show ?case using Suc by (simp add: Let_def)
qed

lemma mset_shuffle: "mset (shuffle r x) = mset x"
  by (cases x) (simp_all add: shuffle_def mset_shuffle_from)

lemma length_shuffle [simp]: "length (shuffle r x) = length x"
  by (simp add: shuffle_def)

lemma set_shuffle [simp]: "set (shuffle r x) = set x"
  by (metis mset_shuffle set_mset_mset)

lemma distinct_shuffle [simp]: "distinct (shuffle r x) = distinct x"
  by (metis mset_shuffle mset_eq_imp_distinct_iff)

lemma shuffle_Nil [simp]: "shuffle r [] = []"
  by (simp add: shuffle_def)

subsection \<open>The groups for one, two and three variants\<close>

lemma nat_int_div [simp]: "nat (int k div numeral w) = k div numeral w"
  by (simp add: nat_div_distrib)

lemma nat_twice_int_div [simp]: "nat (2 * (int k div numeral w)) = 2 * (k div numeral w)"
  by (simp add: nat_mult_distrib nat_div_distrib)

lemma groups_one:
  "create_test_groups r xs 1 = Inr [(''A'', shuffle r xs)]"
  by (simp add: create_test_groups_def py_slice_to_def py_slice_from_def slice_index_def)

lemma groups_two:
  "create_test_groups r xs 2 =
     Inr [(''A'', take (length xs div 2) (shuffle r xs)),
          (''B'', drop (length xs div 2) (shuffle r xs))]"
  by (simp add: create_test_groups_def py_slice_to_def py_slice_from_def py_slice_def
      slice_index_def Let_def)

lemma groups_three:
  "create_test_groups r xs 3 =
     Inr [(''A'', take (length xs div 3) (shuffle r xs)),
          (''B'', take (length xs div 3) (drop (length xs div 3) (shuffle r xs))),
          (''C'', drop (2 * (length xs div 3)) (shuffle r xs))]"
  by (simp add: create_test_groups_def py_slice_to_def py_slice_from_def py_slice_def
      slice_index_def Let_def)






lemma groups_zero_and_minus_one:
  "create_test_groups randbelow recipients 0 = Inl ZeroDivisionError
   \<and> create_test_groups randbelow recipients (- 1)
       = Inr [(''A'', []), (''B'', shuffle randbelow recipients)]"
  by (simp add: create_test_groups_def py_slice_to_def py_slice_from_def py_slice_def
      slice_index_def Let_def)

lemma map_fst_assign_groups [simp]:
  "map fst (assign_groups rs gs l i labels) = labels"
  by (induction labels arbitrary: i) (simp_all add: Let_def)

lemma assign_groups_Nil:
  "assign_groups [] gs l i labels = map (\<lambda>v. (v, [])) labels"
  by (induction labels arbitrary: i) (simp_all add: Let_def py_slice_def py_slice_from_def)

lemma create_test_groups_nonzero:
  "n \<noteq> 0 \<Longrightarrow>
   create_test_groups r xs n =
     Inr (assign_groups (shuffle r xs) (int (length xs) div min n 3)
            (int (length (py_slice_to [''A'', ''B'', ''C''] (min n 3))) - 1) 0
            (py_slice_to [''A'', ''B'', ''C''] (min n 3)))"
  by (simp add: create_test_groups_def Let_def min_def)

lemma create_test_groups_min:
  "create_test_groups r xs n = create_test_groups r xs (min n 3)"
  by (simp add: create_test_groups_def)

lemma groups_concat:
  assumes "m \<in> {1, 2, 3}"
  shows "\<exists>gs. create_test_groups r xs m = Inr gs \<and> concat (map snd gs) = shuffle r xs
           \<and> map fst gs = take (nat m) [''A'', ''B'', ''C'']"
proof -
  let ?rs = "shuffle r xs"
  from assms consider "m = 1" | "m = 2" | "m = 3" by auto
  then show ?thesis
  proof cases
    case 1
    then show ?thesis by (simp add: groups_one)
  next
    case 2
    then show ?thesis by (simp add: groups_two)
  next
    case 3
    let ?g = "length xs div 3"
    let ?gs = "[(''A'', take ?g ?rs), (''B'', take ?g (drop ?g ?rs)), (''C'', drop (2 * ?g) ?rs)]"
    have "take ?g ?rs @ take ?g (drop ?g ?rs) @ drop ?g (drop ?g ?rs) = ?rs"
      by (simp only: append_take_drop_id)
    moreover have "drop ?g (drop ?g ?rs) = drop (2 * ?g) ?rs"
      by (simp only: drop_drop mult_2)
    ultimately have c: "concat (map snd ?gs) = ?rs"
      by (simp only: list.map snd_conv concat.simps append_Nil2)
    have f: "map fst ?gs = take (nat 3) [''A'', ''B'', ''C'']" by simp
    show ?thesis unfolding 3 groups_three using c f by blast
  qed
qed

text \<open>
  C5.  \<open>create_test_groups\<close> clamps the variant count from above only: every count
  behaves as \<^verbatim>\<open>min(num_variants, 3)\<close>, and a count of at least 1 returns the first
  \<open>min(n, 3)\<close> of the labels A, B, C with groups that together hold every recipient.  There
  is no clamp from below.  The call returns normally for every count but 0, for which
  \<^verbatim>\<open>len(recipients) // 0\<close> raises \<open>ZeroDivisionError\<close>; a negative count is taken as
  it is, its labels being \<^verbatim>\<open>["A", "B", "C"][:n]\<close> (for \<open>-1\<close> two groups, A empty and B
  holding every recipient).  An empty recipient list yields only empty groups, for every
  count but 0.
\<close>

theorem create_test_groups_clamps_from_above:
  "create_test_groups randbelow recipients n
     = create_test_groups randbelow recipients (min n 3)
   \<and> (create_test_groups randbelow recipients n = Inl ZeroDivisionError \<longleftrightarrow> n = 0)
   \<and> (n \<noteq> 0 \<longrightarrow>
        (\<exists>groups. create_test_groups randbelow recipients n = Inr groups
           \<and> map fst groups = py_slice_to [''A'', ''B'', ''C''] (min n 3)))
   \<and> (1 \<le> n \<longrightarrow>
        (\<exists>groups. create_test_groups randbelow recipients n = Inr groups
           \<and> map fst groups = take (nat (min n 3)) [''A'', ''B'', ''C'']
           \<and> mset (concat (map snd groups)) = mset recipients))
   \<and> (n \<noteq> 0 \<longrightarrow>
        (\<exists>groups. create_test_groups randbelow [] n = Inr groups
           \<and> list_all (\<lambda>g. snd g = []) groups))
   \<and> create_test_groups randbelow recipients (- 1)
       = Inr [(''A'', []), (''B'', shuffle randbelow recipients)]"
proof (intro conjI impI)
  show "create_test_groups randbelow recipients n
     = create_test_groups randbelow recipients (min n 3)"
    by (rule create_test_groups_min)
  show "create_test_groups randbelow recipients n = Inl ZeroDivisionError \<longleftrightarrow> n = 0"
  proof
    assume e: "create_test_groups randbelow recipients n = Inl ZeroDivisionError"
    show "n = 0"
    proof (rule ccontr)
      assume "n \<noteq> 0"
      from create_test_groups_nonzero[OF this, of randbelow recipients] e show False by simp
    qed
  next
    assume "n = 0"
    then show "create_test_groups randbelow recipients n = Inl ZeroDivisionError"
      using groups_zero_and_minus_one[of randbelow recipients] by simp
  qed
  show "create_test_groups randbelow recipients (- 1)
       = Inr [(''A'', []), (''B'', shuffle randbelow recipients)]"
    using groups_zero_and_minus_one[of randbelow recipients] by simp
next
  assume n: "n \<noteq> 0"
  show "\<exists>groups. create_test_groups randbelow recipients n = Inr groups
           \<and> map fst groups = py_slice_to [''A'', ''B'', ''C''] (min n 3)"
    using create_test_groups_nonzero[OF n, of randbelow recipients] by simp
next
  assume "1 \<le> n"
  then have m: "min n 3 \<in> {1, 2, 3}" by (auto simp: min_def)
  from groups_concat[OF m, of randbelow recipients] obtain gs where gs:
    "create_test_groups randbelow recipients (min n 3) = Inr gs"
    "concat (map snd gs) = shuffle randbelow recipients"
    "map fst gs = take (nat (min n 3)) [''A'', ''B'', ''C'']" by blast
  have "create_test_groups randbelow recipients n = Inr gs"
    using gs(1) create_test_groups_min[of randbelow recipients n] by simp
  moreover have "mset (concat (map snd gs)) = mset recipients"
    by (simp add: gs(2) mset_shuffle)
  ultimately show "\<exists>groups. create_test_groups randbelow recipients n = Inr groups
           \<and> map fst groups = take (nat (min n 3)) [''A'', ''B'', ''C'']
           \<and> mset (concat (map snd groups)) = mset recipients"
    using gs(3) by blast
next
  assume n: "n \<noteq> 0"
  have "list_all (\<lambda>g. snd g = []) (map (\<lambda>v. (v, [])) labels)" for labels :: "string list"
    by (induction labels) simp_all
  then have l: "list_all (\<lambda>g. snd g = [])
      (map (\<lambda>v. (v, [])) (py_slice_to [''A'', ''B'', ''C''] (min n 3)))" .
  have e: "create_test_groups randbelow [] n
      = Inr (map (\<lambda>v. (v, [])) (py_slice_to [''A'', ''B'', ''C''] (min n 3)))"
    using create_test_groups_nonzero[OF n, of randbelow "[]"]
    by (simp add: assign_groups_Nil)
  show "\<exists>groups. create_test_groups randbelow [] n = Inr groups
           \<and> list_all (\<lambda>g. snd g = []) groups"
    using e l by blast
qed

theorem create_test_groups_clamps_from_above_witness:
  "(5::int) \<noteq> 0 \<and> (1::int) \<le> 5
   \<and> create_test_groups (\<lambda>n. 0) [''r1'', ''r2'', ''r3'', ''r4'', ''r5''] 5
       = create_test_groups (\<lambda>n. 0) [''r1'', ''r2'', ''r3'', ''r4'', ''r5''] 3
   \<and> (\<exists>groups. create_test_groups (\<lambda>n. 0) [''r1'', ''r2'', ''r3'', ''r4'', ''r5''] 5 = Inr groups
        \<and> map fst groups = [''A'', ''B'', ''C'']
        \<and> mset (concat (map snd groups)) = mset [''r1'', ''r2'', ''r3'', ''r4'', ''r5''])
   \<and> (\<exists>groups. create_test_groups (\<lambda>n. 0) ([] :: string list) 5 = Inr groups
        \<and> list_all (\<lambda>g. snd g = []) groups)"
proof -
  have h1: "(5::int) \<noteq> 0" and h2: "(1::int) \<le> 5" by simp_all
  have m: "min (5::int) 3 = 3" by simp
  have t: "take (nat 3) [''A'', ''B'', ''C''] = [''A'', ''B'', ''C'']" by simp
  note th = create_test_groups_clamps_from_above[where n = 5 and randbelow = "\<lambda>n. 0"
      and recipients = "[''r1'', ''r2'', ''r3'', ''r4'', ''r5'']"]
  have a: "create_test_groups (\<lambda>n. 0) [''r1'', ''r2'', ''r3'', ''r4'', ''r5''] 5
       = create_test_groups (\<lambda>n. 0) [''r1'', ''r2'', ''r3'', ''r4'', ''r5''] 3"
    using th unfolding m by blast
  have b: "\<exists>groups. create_test_groups (\<lambda>n. 0) [''r1'', ''r2'', ''r3'', ''r4'', ''r5''] 5 = Inr groups
        \<and> map fst groups = [''A'', ''B'', ''C'']
        \<and> mset (concat (map snd groups)) = mset [''r1'', ''r2'', ''r3'', ''r4'', ''r5'']"
    using th h2 unfolding m t by blast
  have c: "\<exists>groups. create_test_groups (\<lambda>n. 0) ([] :: string list) 5 = Inr groups
        \<and> list_all (\<lambda>g. snd g = []) groups"
    using create_test_groups_clamps_from_above[where n = 5 and randbelow = "\<lambda>n. 0"
      and recipients = "[] :: string list"] h1 by blast
  show ?thesis by (intro conjI h1 h2 a b c)
qed

text \<open>
  One recipient and a variant count of 0: the call raises.  With a count of \<open>-1\<close> it
  returns two groups, not one.
\<close>

theorem create_test_groups_zero_counterexample:
  "create_test_groups (\<lambda>n. 0) [''r1''] 0 = Inl ZeroDivisionError
   \<and> create_test_groups (\<lambda>n. 0) [''r1''] (- 1) = Inr [(''A'', []), (''B'', [''r1''])]"
  by (simp add: groups_zero_and_minus_one shuffle_def)

subsection \<open>Recorded events and the winner\<close>

lemma variants_of_ensure:
  "variants_of (ensure_variant tr cid v) cid' =
     (if cid' = cid
      then (if map_of (variants_of tr cid) v = None
            then variants_of tr cid @ [(v, new_variant)] else variants_of tr cid)
      else variants_of tr cid')"
  by (auto simp: ensure_variant_def variants_of_def dict_get_def Let_def update_conv'
      split: option.splits)

lemma variant_of_ensure [simp]:
  "variant_of (ensure_variant tr cid v) cid' v' = variant_of tr cid' v'"
  by (auto simp: variant_of_def variants_of_ensure dict_get_def map_add_def split: option.splits)

lemma variants_of_set:
  "variants_of (set_variant tr cid v d) cid' =
     (if cid' = cid then AList.update v d (variants_of tr cid) else variants_of tr cid')"
  by (simp add: set_variant_def variants_of_def dict_get_def update_conv')

lemma variant_of_set [simp]:
  "variant_of (set_variant tr cid v d) cid' v' =
     (if cid' = cid \<and> v' = v then d else variant_of tr cid' v')"
  by (simp add: variant_of_def variants_of_set dict_get_def update_conv')

lemma stored_count_variant_of:
  "stored_count tr cid v e =
     (if e = ''sent'' then sent (variant_of tr cid v)
      else if e = ''opened'' then opened (variant_of tr cid v)
      else if e = ''clicked'' then clicked (variant_of tr cid v)
      else if e = ''converted'' then converted (variant_of tr cid v)
      else 0)"
  by (simp add: stored_count_def variant_of_def variants_of_def dict_get_def new_variant_def
      split: option.splits)

text \<open>
  C2.  \<open>record_event\<close> merges by addition.  For the four counters \<open>sent\<close>, \<open>opened\<close>,
  \<open>clicked\<close> and \<open>converted\<close> a call adds the reported count to the stored value of that
  campaign, variant and counter and leaves every other stored counter as it was; a report
  lower than the stored value is added like any other, nothing is discarded.  So stored
  counters never decrease under non-negative reports.  Every other event name changes no
  counter, and \<open>metrics\<close> raises \<open>TypeError\<close>.
\<close>

theorem record_event_adds:
  "snd (record_event tr cid variant event n) = (if event = ''metrics'' then Some TypeError else None)
   \<and> stored_count (fst (record_event tr cid variant event n)) cid' variant' event'
       = stored_count tr cid' variant' event'
         + (if cid' = cid \<and> variant' = variant \<and> event' = event
               \<and> event \<in> {''sent'', ''opened'', ''clicked'', ''converted''} then n else 0)
   \<and> (0 \<le> n \<longrightarrow> stored_count tr cid' variant' event'
                  \<le> stored_count (fst (record_event tr cid variant event n)) cid' variant' event')"
  by (simp add: record_event_def stored_count_variant_of Let_def)

text \<open>
  The reports 5, 3, 8 for one counter: after the stale 3 the stored value is 8, not 5,
  and the final value is 16, not 8.
\<close>

theorem record_event_stale_counterexample:
  "stored_count (fst (record_event (fst (record_event [] ''c1'' ''A'' ''opened'' 5))
       ''c1'' ''A'' ''opened'' 3)) ''c1'' ''A'' ''opened'' = 8
   \<and> stored_count (fst (record_event (fst (record_event (fst (record_event []
       ''c1'' ''A'' ''opened'' 5)) ''c1'' ''A'' ''opened'' 3)) ''c1'' ''A'' ''opened'' 8))
       ''c1'' ''A'' ''opened'' = 16"
  by (simp add: record_event_def stored_count_def ensure_variant_def set_variant_def
      variants_of_def variant_of_def dict_get_def new_variant_def Let_def)

theorem record_event_adds_witness:
  "(0::int) \<le> 3
   \<and> stored_count (fst (record_event [] ''c1'' ''A'' ''opened'' 5)) ''c1'' ''A'' ''opened'' = 5
   \<and> stored_count (fst (record_event (fst (record_event [] ''c1'' ''A'' ''opened'' 5))
        ''c1'' ''A'' ''opened'' 3)) ''c1'' ''A'' ''opened'' = 5 + 3
   \<and> stored_count (fst (record_event [] ''c1'' ''A'' ''opened'' 5)) ''c1'' ''A'' ''opened''
       \<le> stored_count (fst (record_event (fst (record_event [] ''c1'' ''A'' ''opened'' 5))
            ''c1'' ''A'' ''opened'' 3)) ''c1'' ''A'' ''opened''"
proof -
  have five: "stored_count (fst (record_event [] ''c1'' ''A'' ''opened'' 5)) ''c1'' ''A'' ''opened'' = 5"
    by (simp add: record_event_def stored_count_def ensure_variant_def set_variant_def
      variants_of_def variant_of_def dict_get_def new_variant_def Let_def)
  show ?thesis
    using five record_event_adds[of "fst (record_event [] ''c1'' ''A'' ''opened'' 5)"
        "''c1''" "''A''" "''opened''" 3 "''c1''" "''A''" "''opened''"]
    by simp
qed

lemma winner_loop_char:
  "(winner_loop pm ms w b = w \<and> (\<forall>j<length ms. metric_get (snd (ms ! j)) pm \<le> b))
   \<or> (\<exists>i<length ms. winner_loop pm ms w b = Some (fst (ms ! i))
         \<and> b < metric_get (snd (ms ! i)) pm
         \<and> (\<forall>j<length ms. metric_get (snd (ms ! j)) pm \<le> metric_get (snd (ms ! i)) pm)
         \<and> (\<forall>j<i. metric_get (snd (ms ! j)) pm < metric_get (snd (ms ! i)) pm))"
proof (induction ms arbitrary: w b)
  case Nil
  then show ?case by simp
next
  case (Cons m rest)
  obtain v d where m: "m = (v, d)" by (cases m)
  let ?s = "metric_get d pm"
  let ?sc = "\<lambda>i. metric_get (snd (rest ! i)) pm"
  let ?sc' = "\<lambda>i. metric_get (snd ((m # rest) ! i)) pm"
  have sc0: "?sc' 0 = ?s" and scS: "\<And>j. ?sc' (Suc j) = ?sc j" by (simp_all add: m)
  have all_Suc: "\<And>P n. (\<forall>j<Suc n. P j) = (P 0 \<and> (\<forall>j<n. P (Suc j)))"
    by (auto simp: less_Suc_eq_0_disj)
  show ?case
  proof (cases "?s > b")
    case True
    then have step: "winner_loop pm (m # rest) w b = winner_loop pm rest (Some v) ?s"
      by (simp add: m)
    from Cons.IH[of "Some v" ?s] show ?thesis
    proof
      assume a: "winner_loop pm rest (Some v) ?s = Some v \<and> (\<forall>j<length rest. ?sc j \<le> ?s)"
      have A: "0 < length (m # rest)" by simp
      have B: "winner_loop pm (m # rest) w b = Some (fst ((m # rest) ! 0))"
        using a step by (simp add: m)
      have C: "b < ?sc' 0" using True by (simp add: m)
      have D: "\<forall>j<length (m # rest). ?sc' j \<le> ?sc' 0"
        using a unfolding length_Cons all_Suc scS sc0 by simp
      have E: "\<forall>j<0. ?sc' j < ?sc' 0" by simp
      show ?thesis using A B C D E by blast
    next
      assume "\<exists>i<length rest. winner_loop pm rest (Some v) ?s = Some (fst (rest ! i)) \<and> ?s < ?sc i
             \<and> (\<forall>j<length rest. ?sc j \<le> ?sc i) \<and> (\<forall>j<i. ?sc j < ?sc i)"
      then obtain i where i: "i < length rest"
        "winner_loop pm rest (Some v) ?s = Some (fst (rest ! i))" "?s < ?sc i"
        "\<forall>j<length rest. ?sc j \<le> ?sc i" "\<forall>j<i. ?sc j < ?sc i" by blast
      have A: "Suc i < length (m # rest)" using i(1) by simp
      have B: "winner_loop pm (m # rest) w b = Some (fst ((m # rest) ! Suc i))"
        using i(2) step by simp
      have C: "b < ?sc' (Suc i)" using True i(3) unfolding scS by linarith
      have D: "\<forall>j<length (m # rest). ?sc' j \<le> ?sc' (Suc i)"
        using i(3,4) unfolding length_Cons all_Suc scS sc0 by simp
      have E: "\<forall>j<Suc i. ?sc' j < ?sc' (Suc i)"
        using i(3,5) unfolding all_Suc scS sc0 by simp
      show ?thesis using A B C D E by blast
    qed
  next
    case False
    then have step: "winner_loop pm (m # rest) w b = winner_loop pm rest w b"
      by (simp add: m)
    from Cons.IH[of w b] show ?thesis
    proof
      assume a: "winner_loop pm rest w b = w \<and> (\<forall>j<length rest. ?sc j \<le> b)"
      have "\<forall>j<length (m # rest). ?sc' j \<le> b"
        using a False unfolding length_Cons all_Suc scS sc0 by simp
      then show ?thesis using a step by simp
    next
      assume "\<exists>i<length rest. winner_loop pm rest w b = Some (fst (rest ! i)) \<and> b < ?sc i
             \<and> (\<forall>j<length rest. ?sc j \<le> ?sc i) \<and> (\<forall>j<i. ?sc j < ?sc i)"
      then obtain i where i: "i < length rest"
        "winner_loop pm rest w b = Some (fst (rest ! i))" "b < ?sc i"
        "\<forall>j<length rest. ?sc j \<le> ?sc i" "\<forall>j<i. ?sc j < ?sc i" by blast
      have s: "?s < ?sc i" using False i(3) by linarith
      have A: "Suc i < length (m # rest)" using i(1) by simp
      have B: "winner_loop pm (m # rest) w b = Some (fst ((m # rest) ! Suc i))"
        using i(2) step by simp
      have C: "b < ?sc' (Suc i)" using i(3) unfolding scS by simp
      have D: "\<forall>j<length (m # rest). ?sc' j \<le> ?sc' (Suc i)"
        using s i(4) unfolding length_Cons all_Suc scS sc0 by simp
      have E: "\<forall>j<Suc i. ?sc' j < ?sc' (Suc i)"
        using s i(5) unfolding all_Suc scS sc0 by simp
      show ?thesis using A B C D E by blast
    qed
  qed
qed

lemma calculate_metrics_Some:
  "map_of tr cid = Some variants \<Longrightarrow>
   calculate_metrics pct tr cid = Results (map (\<lambda>(variant, data). (variant, rates_of pct data)) variants)"
  by (simp add: calculate_metrics_def)

text \<open>
  C7.  \<open>get_winner\<close> walks the variants in the order of the campaign's variants dict, the
  order in which the variants were first recorded, not in a fixed order A, B, C.  A variant
  takes the lead only with a score strictly greater than the running best, which starts at
  \<open>-1\<close>: the winner is the first variant, in dict order, that reaches the maximal score,
  every earlier variant scores strictly less, and there is no winner when no score
  exceeds \<open>-1\<close>.
\<close>

theorem get_winner_first_seen_in_dict_order:
  assumes "map_of tr campaign_id = Some variants" and "''error'' \<notin> set (map fst variants)"
  shows "(get_winner pct tr campaign_id pm = None
          \<and> (\<forall>j<length variants. score_at pct pm variants j \<le> - 1))
       \<or> (\<exists>i<length variants. get_winner pct tr campaign_id pm = Some (fst (variants ! i))
            \<and> - 1 < score_at pct pm variants i
            \<and> (\<forall>j<length variants. score_at pct pm variants j \<le> score_at pct pm variants i)
            \<and> (\<forall>j<i. score_at pct pm variants j < score_at pct pm variants i))"
proof -
  let ?ms = "map (\<lambda>(variant, data). (variant, rates_of pct data)) variants"
  have keys: "map fst ?ms = map fst variants" by (induction variants) auto
  have gw: "get_winner pct tr campaign_id pm = winner_loop pm ?ms None (- 1)"
    using assms keys by (simp add: get_winner_def calculate_metrics_Some del: map_map)
  have len: "length ?ms = length variants" by simp
  have nth: "\<And>i. i < length variants \<Longrightarrow>
      fst (?ms ! i) = fst (variants ! i) \<and> metric_get (snd (?ms ! i)) pm = score_at pct pm variants i"
    by (simp add: score_at_def split: prod.splits)
  from winner_loop_char[of pm ?ms None "- 1"] show ?thesis
  proof
    assume "winner_loop pm ?ms None (- 1) = None
        \<and> (\<forall>j<length ?ms. metric_get (snd (?ms ! j)) pm \<le> - 1)"
    then show ?thesis using gw nth len by auto
  next
    assume "\<exists>i<length ?ms. winner_loop pm ?ms None (- 1) = Some (fst (?ms ! i))
         \<and> - 1 < metric_get (snd (?ms ! i)) pm
         \<and> (\<forall>j<length ?ms. metric_get (snd (?ms ! j)) pm \<le> metric_get (snd (?ms ! i)) pm)
         \<and> (\<forall>j<i. metric_get (snd (?ms ! j)) pm < metric_get (snd (?ms ! i)) pm)"
    then obtain i where i: "i < length variants"
      "winner_loop pm ?ms None (- 1) = Some (fst (?ms ! i))"
      "- 1 < metric_get (snd (?ms ! i)) pm"
      "\<forall>j<length variants. metric_get (snd (?ms ! j)) pm \<le> metric_get (snd (?ms ! i)) pm"
      "\<forall>j<i. metric_get (snd (?ms ! j)) pm < metric_get (snd (?ms ! i)) pm"
      unfolding len by blast
    have B: "get_winner pct tr campaign_id pm = Some (fst (variants ! i))"
      using gw i(1,2) nth by simp
    have C: "- 1 < score_at pct pm variants i" using i(1,3) nth by simp
    have D: "\<forall>j<length variants. score_at pct pm variants j \<le> score_at pct pm variants i"
      using i(1,4) nth by simp
    have E: "\<forall>j<i. score_at pct pm variants j < score_at pct pm variants i"
    proof (intro allI impI)
      fix j assume ji: "j < i"
      then have "j < length variants" using i(1) by simp
      then show "score_at pct pm variants j < score_at pct pm variants i"
        using i(1,5) nth ji by simp
    qed
    show ?thesis using i(1) B C D E by blast
  qed
qed

text \<open>
  The agent's state after variant B was sent and opened before variant A, with equal
  counts: B is the first key of the variants dict.
\<close>

definition b_first_results :: test_results where
  "b_first_results =
     fst (record_event (fst (record_event (fst (record_event (fst (record_event []
       ''c1'' ''B'' ''sent'' 100)) ''c1'' ''B'' ''opened'' 20))
       ''c1'' ''A'' ''sent'' 100)) ''c1'' ''A'' ''opened'' 20)"

definition b_first_variants :: "(string \<times> variant_data) list" where
  "b_first_variants =
     [(''B'', \<lparr>metrics = [], sent = 100, opened = 20, clicked = 0, converted = 0\<rparr>),
      (''A'', \<lparr>metrics = [], sent = 100, opened = 20, clicked = 0, converted = 0\<rparr>)]"

lemma b_first_results_eq: "b_first_results = [(''c1'', b_first_variants)]"
  by (simp add: b_first_results_def b_first_variants_def record_event_def ensure_variant_def
      set_variant_def variants_of_def variant_of_def dict_get_def new_variant_def Let_def)

text \<open>
  With B recorded before A and both at an open rate of 20, B wins the tie.  The rate
  function is instantiated with the exact quotient, which is also the binary64 result
  for 20 / 100 * 100; equal counters score equally under every instantiation.
\<close>

theorem get_winner_tie_counterexample:
  "calculate_metrics (\<lambda>a b. of_int a * 100 / of_int b) b_first_results ''c1''
     = Results [(''B'', \<lparr>r_sent = 100, r_opened = 20, r_clicked = 0, r_converted = 0,
                    open_rate = 20, click_rate = 0, conversion_rate = 0, click_through_rate = 0\<rparr>),
                (''A'', \<lparr>r_sent = 100, r_opened = 20, r_clicked = 0, r_converted = 0,
                    open_rate = 20, click_rate = 0, conversion_rate = 0, click_through_rate = 0\<rparr>)]
   \<and> get_winner (\<lambda>a b. of_int a * 100 / of_int b) b_first_results ''c1'' ''open_rate'' = Some ''B''
   \<and> get_winner (\<lambda>a b. of_int a * 100 / of_int b) b_first_results ''c1'' ''opened'' = Some ''B''"
  by (simp add: b_first_results_eq b_first_variants_def get_winner_def calculate_metrics_def
      rates_of_def metric_get_def)

theorem get_winner_first_seen_in_dict_order_witness:
  "map_of b_first_results ''c1'' = Some b_first_variants
   \<and> ''error'' \<notin> set (map fst b_first_variants)
   \<and> ((get_winner (\<lambda>a b. of_int a * 100 / of_int b) b_first_results ''c1'' ''open_rate'' = None
          \<and> (\<forall>j<length b_first_variants.
                score_at (\<lambda>a b. of_int a * 100 / of_int b) ''open_rate'' b_first_variants j \<le> - 1))
       \<or> (\<exists>i<length b_first_variants.
            get_winner (\<lambda>a b. of_int a * 100 / of_int b) b_first_results ''c1'' ''open_rate''
              = Some (fst (b_first_variants ! i))
            \<and> - 1 < score_at (\<lambda>a b. of_int a * 100 / of_int b) ''open_rate'' b_first_variants i
            \<and> (\<forall>j<length b_first_variants.
                  score_at (\<lambda>a b. of_int a * 100 / of_int b) ''open_rate'' b_first_variants j
                  \<le> score_at (\<lambda>a b. of_int a * 100 / of_int b) ''open_rate'' b_first_variants i)
            \<and> (\<forall>j<i. score_at (\<lambda>a b. of_int a * 100 / of_int b) ''open_rate'' b_first_variants j
                  < score_at (\<lambda>a b. of_int a * 100 / of_int b) ''open_rate'' b_first_variants i)))"
proof -
  have h1: "map_of b_first_results ''c1'' = Some b_first_variants"
    by (simp add: b_first_results_eq)
  have h2: "''error'' \<notin> set (map fst b_first_variants)"
    by (simp add: b_first_variants_def)
  show ?thesis
    using h1 h2 get_winner_first_seen_in_dict_order[OF h1 h2,
        of "\<lambda>a b. of_int a * 100 / of_int b" "''open_rate''"]
    by (intro conjI)
qed


section \<open>The mail senders (utils/sendgrid\_sender.py, utils/email\_sender.py)\<close>

text \<open>
  A recipient is a dict of CSV columns (\<open>email\<close>, \<open>name\<close>, ...); a variant's content is
  a dict with the keys \<open>subject\<close>, \<open>body\<close>, \<open>full_content\<close>, \<open>content\<close>.
\<close>

type_synonym recipient = "(string \<times> string) list"
type_synonym email_content = "(string \<times> string) list"

text \<open>One invocation of \<open>send_email\<close>: its arguments.\<close>

record send_request =
  rq_email :: string
  rq_name :: string
  rq_subject :: string
  rq_body :: string
  rq_variant :: string
  rq_campaign :: string

text \<open>
  What the SendGrid HTTP client does with a message: it raises, or it answers with a
  status code and an \<open>X-Message-Id\<close> header (empty when the header is missing).
\<close>

datatype client_response = ClientRaises string | Response int string

datatype send_failure = StatusNotAccepted int | SendException string

text \<open>
  The dict \<open>send_email\<close> returns; an absent key is \<open>None\<close>.  The keys \<open>recipient\<close> and
  \<open>sandbox\<close> repeat the arguments and are left out.
\<close>

record send_result =
  success :: bool
  message_id :: "string option"
  status_code :: "int option"
  send_error :: "send_failure option"

definition send_email :: "client_response \<Rightarrow> send_result" where
  "send_email response =
     (case response of
        ClientRaises e \<Rightarrow>
          \<lparr>success = False, message_id = None, status_code = None,
           send_error = Some (SendException e)\<rparr>
      | Response code mid \<Rightarrow>
          if code = 200 \<or> code = 202
          then \<lparr>success = True, message_id = Some mid, status_code = Some code,
                send_error = None\<rparr>
          else \<lparr>success = False, message_id = None, status_code = Some code,
                send_error = Some (StatusNotAccepted code)\<rparr>)"

text \<open>
  The world outside the orchestrator: \<open>clock\<close> counts the calls made so far to external
  collaborators (an external answer may depend on when it is asked), \<open>outbox\<close> lists the
  \<open>send_email\<close> invocations in order, and \<open>test_results\<close> is the state of the
  A/B testing agent.
\<close>

record world =
  clock :: nat
  outbox :: "send_request list"
  test_results :: test_results

datatype batch_error = NoEmailAddress | MissingContent | SendFailed send_failure | UnknownError

text \<open>
  The dict \<open>send_batch\<close> returns.  \<open>b_sent\<close> is its key \<open>sent\<close>; an entry of
  \<open>per_recipient\<close> is the recipient's address with the outcome of its send.
\<close>

record batch_results =
  total :: int
  b_sent :: int
  failed :: int
  message_ids :: "(string \<times> string) list"
  errors :: "(string \<times> batch_error) list"
  per_recipient :: "(string \<times> send_result) list"
  sandbox :: bool

text \<open>\<open>str.strip()\<close> on ASCII text.\<close>

definition is_space :: "char \<Rightarrow> bool" where
  "is_space c = (c \<in> set [CHR 0x20, CHR 0x09, CHR 0x0A, CHR 0x0B, CHR 0x0C, CHR 0x0D,
                           CHR 0x1C, CHR 0x1D, CHR 0x1E, CHR 0x1F])"

definition strip :: "string \<Rightarrow> string" where
  "strip s = rev (dropWhile is_space (rev (dropWhile is_space s)))"

definition has_email :: "recipient \<Rightarrow> bool" where
  "has_email recipient = (dict_get recipient ''email'' '''' \<noteq> [])"

definition request_of :: "string \<Rightarrow> string \<Rightarrow> string \<Rightarrow> string \<Rightarrow> recipient \<Rightarrow> send_request" where
  "request_of subject body variant campaign_id recipient =
     \<lparr>rq_email = dict_get recipient ''email'' '''',
      rq_name = dict_get recipient ''name'' ''Customer'',
      rq_subject = subject, rq_body = body, rq_variant = variant,
      rq_campaign = campaign_id\<rparr>"

text \<open>
  The loop of \<open>SendGridSender.send_batch\<close> over the recipients.  A recipient without an
  address is counted as failed and skipped (\<^verbatim>\<open>continue\<close>); every other recipient is
  sent to, its outcome appended to \<open>per_recipient\<close>, and counted as sent or failed.
\<close>

fun send_loop ::
  "(nat \<Rightarrow> send_request \<Rightarrow> client_response) \<Rightarrow> string \<Rightarrow> string \<Rightarrow> string \<Rightarrow> string
   \<Rightarrow> recipient list \<Rightarrow> batch_results \<Rightarrow> world \<Rightarrow> batch_results \<times> world" where
  "send_loop client subject body variant campaign_id [] results w = (results, w)"
| "send_loop client subject body variant campaign_id (recipient # rest) results w =
     (let email = dict_get recipient ''email'' ''''
      in if email = []
         then send_loop client subject body variant campaign_id rest
                (results\<lparr>failed := failed results + 1,
                         errors := errors results @ [(''N/A'', NoEmailAddress)]\<rparr>) w
         else
           let request = request_of subject body variant campaign_id recipient;
               result = send_email (client (clock w) request);
               w = w\<lparr>clock := clock w + 1, outbox := outbox w @ [request]\<rparr>;
               results = results\<lparr>per_recipient := per_recipient results @ [(email, result)]\<rparr>
           in if success result
              then send_loop client subject body variant campaign_id rest
                     (results\<lparr>b_sent := b_sent results + 1,
                              message_ids :=
                                (case message_id result of
                                   None \<Rightarrow> message_ids results
                                 | Some mid \<Rightarrow>
                                     if mid = [] then message_ids results
                                     else message_ids results @ [(email, mid)])\<rparr>) w
              else send_loop client subject body variant campaign_id rest
                     (results\<lparr>failed := failed results + 1,
                              errors := errors results @
                                [(email, case send_error result of
                                           None \<Rightarrow> UnknownError
                                         | Some e \<Rightarrow> SendFailed e)]\<rparr>) w)"

text \<open>
  \<open>SendGridSender.send_batch\<close>: the empty list returns at once; the subject and the body
  fall back to fixed texts when missing or blank, so the following check for missing
  content never fires; then the loop.
\<close>

definition first_nonempty :: "string list \<Rightarrow> string" where
  "first_nonempty xs = (case filter (\<lambda>s. s \<noteq> []) xs of [] \<Rightarrow> [] | s # _ \<Rightarrow> s)"

definition send_batch ::
  "(nat \<Rightarrow> send_request \<Rightarrow> client_response) \<Rightarrow> bool \<Rightarrow> recipient list \<Rightarrow> email_content
   \<Rightarrow> string \<Rightarrow> string \<Rightarrow> world \<Rightarrow> batch_results \<times> world" where
  "send_batch client sandbox_mode recipients email_content variant campaign_id w =
     (let results = \<lparr>total = int (length recipients), b_sent = 0, failed = 0, message_ids = [],
                     errors = [], per_recipient = [], sandbox = sandbox_mode\<rparr>
      in if recipients = [] then (results, w)
         else
           let subject = strip (dict_get email_content ''subject'' '''');
               subject = (if subject = [] then ''Update from our team'' else subject);
               body = strip (first_nonempty
                        [dict_get email_content ''full_content'' '''',
                         dict_get email_content ''body'' '''',
                         dict_get email_content ''content'' '''']);
               body = (if body = []
                       then ''Hello,'' @ [CHR 0x0A, CHR 0x0A]
                            @ ''We wanted to share an update with you.'' @ [CHR 0x0A, CHR 0x0A]
                            @ ''Best regards,'' @ [CHR 0x0A] @ ''Team''
                       else body)
           in if subject = [] \<or> body = []
              then (results\<lparr>errors := errors results @ [('''', MissingContent)]\<rparr>, w)
              else send_loop client subject body variant campaign_id recipients results w)"

text \<open>The subject and body \<open>send_batch\<close> sends, as computed above.\<close>

definition subject_of :: "email_content \<Rightarrow> string" where
  "subject_of email_content =
     (let subject = strip (dict_get email_content ''subject'' '''')
      in if subject = [] then ''Update from our team'' else subject)"

definition body_of :: "email_content \<Rightarrow> string" where
  "body_of email_content =
     (let body = strip (first_nonempty
                        [dict_get email_content ''full_content'' '''',
                         dict_get email_content ''body'' '''',
                         dict_get email_content ''content'' ''''])
      in if body = []
         then ''Hello,'' @ [CHR 0x0A, CHR 0x0A]
              @ ''We wanted to share an update with you.'' @ [CHR 0x0A, CHR 0x0A]
              @ ''Best regards,'' @ [CHR 0x0A] @ ''Team''
         else body)"

text \<open>
  The outcome of each addressed recipient, when the first of them is sent at clock \<open>k\<close>:
  the answer of the client to that recipient's own request.
\<close>

fun outcomes ::
  "(nat \<Rightarrow> send_request \<Rightarrow> client_response) \<Rightarrow> string \<Rightarrow> string \<Rightarrow> string \<Rightarrow> string
   \<Rightarrow> nat \<Rightarrow> recipient list \<Rightarrow> (string \<times> send_result) list" where
  "outcomes client subject body variant campaign_id k [] = []"
| "outcomes client subject body variant campaign_id k (recipient # rest) =
     (dict_get recipient ''email'' '''',
      send_email (client k (request_of subject body variant campaign_id recipient)))
     # outcomes client subject body variant campaign_id (Suc k) rest"

lemma length_outcomes [simp]: "length (outcomes c s b v cid k rs) = length rs"
  by (induction rs arbitrary: k) auto

lemma map_fst_outcomes [simp]:
  "map fst (outcomes c s b v cid k rs) = map (\<lambda>r. dict_get r ''email'' '''') rs"
  by (induction rs arbitrary: k) auto

lemma send_loop_char:
  "send_loop c s b v cid rs results w = (r, w') \<Longrightarrow>
     total r = total results
   \<and> sandbox r = sandbox results
   \<and> b_sent r + failed r = b_sent results + failed results + int (length rs)
   \<and> per_recipient r = per_recipient results @ outcomes c s b v cid (clock w) (filter has_email rs)
   \<and> b_sent r = b_sent results
        + int (length (filter (\<lambda>e. success (snd e)) (outcomes c s b v cid (clock w) (filter has_email rs))))
   \<and> outbox w' = outbox w @ map (request_of s b v cid) (filter has_email rs)
   \<and> clock w' = clock w + length (filter has_email rs)
   \<and> test_results w' = test_results w"
proof (induction rs arbitrary: results w)
  case Nil
  then show ?case by simp
next
  case (Cons x xs)
  show ?case
  proof (cases "dict_get x ''email'' '''' = []")
    case True
    then have "send_loop c s b v cid xs
                (results\<lparr>failed := failed results + 1,
                         errors := errors results @ [(''N/A'', NoEmailAddress)]\<rparr>) w = (r, w')"
      using Cons.prems by simp
    from Cons.IH[OF this] True show ?thesis by (simp add: has_email_def)
  next
    case False
    let ?req = "request_of s b v cid x"
    let ?res = "send_email (c (clock w) ?req)"
    let ?w = "w\<lparr>clock := clock w + 1, outbox := outbox w @ [?req]\<rparr>"
    let ?results = "results\<lparr>per_recipient := per_recipient results @ [(dict_get x ''email'' '''', ?res)]\<rparr>"
    show ?thesis
    proof (cases "success ?res")
      case True
      then obtain results' where
        "send_loop c s b v cid xs results' ?w = (r, w')"
        "total results' = total results" "sandbox results' = sandbox results"
        "b_sent results' = b_sent results + 1" "failed results' = failed results"
        "per_recipient results' = per_recipient ?results"
        using Cons.prems False by (simp add: Let_def)
      from Cons.IH[OF this(1)] this(2-) False True show ?thesis
        by (simp add: has_email_def)
    next
      case nosucc: False
      then obtain results' where
        "send_loop c s b v cid xs results' ?w = (r, w')"
        "total results' = total results" "sandbox results' = sandbox results"
        "b_sent results' = b_sent results" "failed results' = failed results + 1"
        "per_recipient results' = per_recipient ?results"
        using Cons.prems False by (simp add: Let_def)
      from Cons.IH[OF this(1)] this(2-) False nosucc show ?thesis
        by (simp add: has_email_def)
    qed
  qed
qed

lemma subject_nonempty: "subject_of e \<noteq> []"
  by (simp add: subject_of_def Let_def)

lemma body_nonempty: "body_of e \<noteq> []"
  by (simp add: body_of_def Let_def)

lemma send_batch_eq:
  "send_batch c sb rs e v cid w =
     (if rs = [] then (\<lparr>total = 0, b_sent = 0, failed = 0, message_ids = [],
                     errors = [], per_recipient = [], sandbox = sb\<rparr>, w)
      else send_loop c (subject_of e) (body_of e) v cid rs
             \<lparr>total = int (length rs), b_sent = 0, failed = 0, message_ids = [],
                     errors = [], per_recipient = [], sandbox = sb\<rparr> w)"
  using subject_nonempty[of e] body_nonempty[of e]
  by (simp add: send_batch_def subject_of_def body_of_def Let_def)

lemma send_batch_char:
  assumes "send_batch c sb rs e v cid w = (r, w')"
  shows "total r = int (length rs) \<and> b_sent r + failed r = int (length rs) \<and>
    per_recipient r = outcomes c (subject_of e) (body_of e) v cid (clock w) (filter has_email rs) \<and>
    b_sent r = int (length (filter (\<lambda>e. success (snd e)) (per_recipient r))) \<and>
    outbox w' = outbox w @ map (request_of (subject_of e) (body_of e) v cid) (filter has_email rs) \<and>
    clock w' = clock w + length (filter has_email rs) \<and>
    test_results w' = test_results w \<and> sandbox r = sb"
proof (cases "rs = []")
  case True
  then show ?thesis using assms by (auto simp: send_batch_eq)
next
  case False
  then have "send_loop c (subject_of e) (body_of e) v cid rs
             \<lparr>total = int (length rs), b_sent = 0, failed = 0, message_ids = [],
                     errors = [], per_recipient = [], sandbox = sb\<rparr> w = (r, w')"
    using assms by (simp add: send_batch_eq)
  from send_loop_char[OF this] show ?thesis by simp
qed

lemma length_filter_split:
  "length xs = length (filter P xs) + length (filter (\<lambda>x. \<not> P x) xs)"
  by (induction xs) auto

text \<open>
  C10.  Every call of \<open>send_batch\<close> returns counters with \<open>sent + failed = total\<close> and
  \<open>total = len(recipients)\<close>.  A recipient whose address is missing or empty counts as
  failed, is not sent to, and gets no entry in \<open>per_recipient\<close>: the list has one entry per
  addressed recipient, the outbox grows by one request per addressed recipient, and
  \<open>failed\<close> is the number of unaddressed recipients plus the number of failed sends.  So
  \<open>per_recipient\<close> never has more entries than \<open>total\<close>, and it can have fewer.
\<close>

theorem send_batch_accounting:
  "(case send_batch client sb recipients content variant campaign_id w of
      (r, w') \<Rightarrow>
        b_sent r + failed r = total r \<and> total r = int (length recipients)
      \<and> length (per_recipient r) = length (filter has_email recipients)
      \<and> length (outbox w') = length (outbox w) + length (filter has_email recipients)
      \<and> failed r = int (length (filter (\<lambda>x. \<not> has_email x) recipients))
                     + int (length (filter (\<lambda>e. \<not> success (snd e)) (per_recipient r)))
      \<and> length (per_recipient r) \<le> length recipients)
   \<and> (\<exists>c s e v cid w0.
         int (length (per_recipient (fst (send_batch c s [[(''name'', ''Bo'')]] e v cid w0))))
         < total (fst (send_batch c s [[(''name'', ''Bo'')]] e v cid w0)))"
proof (intro conjI)
  obtain r w' where rw: "send_batch client sb recipients content variant campaign_id w = (r, w')"
    by (cases "send_batch client sb recipients content variant campaign_id w")
  note ch = send_batch_char[OF rw]
  have "per_recipient r = outcomes client (subject_of content) (body_of content) variant
           campaign_id (clock w) (filter has_email recipients)" using ch by blast
  then have len: "length (per_recipient r) = length (filter has_email recipients)"
    by simp
  have bs: "b_sent r = int (length (filter (\<lambda>e. success (snd e)) (per_recipient r)))"
    and bf: "b_sent r + failed r = int (length recipients)"
    using ch by blast+
  have split1: "length recipients = length (filter has_email recipients)
                  + length (filter (\<lambda>x. \<not> has_email x) recipients)"
    by (rule length_filter_split)
  have split2: "length (per_recipient r) = length (filter (\<lambda>e. success (snd e)) (per_recipient r))
                  + length (filter (\<lambda>e. \<not> success (snd e)) (per_recipient r))"
    by (rule length_filter_split)
  have f: "failed r = int (length (filter (\<lambda>x. \<not> has_email x) recipients))
                     + int (length (filter (\<lambda>e. \<not> success (snd e)) (per_recipient r)))"
    using bs bf len split1 split2 by linarith
  have le: "length (per_recipient r) \<le> length recipients" using len by simp
  have a2: "total r = int (length recipients)" using ch by blast
  have "b_sent r + failed r = int (length recipients)" using ch by blast
  then have a1: "b_sent r + failed r = total r" using a2 by simp
  have "outbox w' = outbox w @ map (request_of (subject_of content) (body_of content) variant
           campaign_id) (filter has_email recipients)" using ch by blast
  then have a4: "length (outbox w') = length (outbox w) + length (filter has_email recipients)"
    by simp
  show "case send_batch client sb recipients content variant campaign_id w of
      (r, w') \<Rightarrow>
        b_sent r + failed r = total r \<and> total r = int (length recipients)
      \<and> length (per_recipient r) = length (filter has_email recipients)
      \<and> length (outbox w') = length (outbox w) + length (filter has_email recipients)
      \<and> failed r = int (length (filter (\<lambda>x. \<not> has_email x) recipients))
                     + int (length (filter (\<lambda>e. \<not> success (snd e)) (per_recipient r)))
      \<and> length (per_recipient r) \<le> length recipients"
    unfolding rw prod.case by (intro conjI a1 a2 len a4 f le)
next
  obtain r w' where rw: "send_batch (\<lambda>k rq. Response 202 []) False [[(''name'', ''Bo'')]] []
      [] [] \<lparr>clock = 0, outbox = [], test_results = []\<rparr> = (r, w')"
    by (cases "send_batch (\<lambda>k rq. Response 202 []) False [[(''name'', ''Bo'')]] []
      [] [] \<lparr>clock = 0, outbox = [], test_results = []\<rparr>")
  have "int (length (per_recipient r)) < total r"
    using send_batch_char[OF rw] by (simp add: has_email_def dict_get_def)
  then show "\<exists>c s e v cid w0.
         int (length (per_recipient (fst (send_batch c s [[(''name'', ''Bo'')]] e v cid w0))))
         < total (fst (send_batch c s [[(''name'', ''Bo'')]] e v cid w0))"
    using rw by (metis fst_conv)
qed




definition hello_content :: email_content where
  "hello_content = [(''subject'', ''Hello''), (''body'', ''News'')]"

definition fresh_world :: world where
  "fresh_world = \<lparr>clock = 0, outbox = [], test_results = []\<rparr>"




section \<open>CampaignOrchestrator (orchestrator.py)\<close>

subsection \<open>State and collaborators\<close>

type_synonym strategy = "(string \<times> string) list"
type_synonym report = "(string \<times> string) list"

text \<open>
  The dict \<open>segment_audience\<close> returns: its key \<open>selected_segment\<close> when present; the
  other keys are read by no modelled code and are kept as one opaque text.
\<close>

record segmentation =
  selected_segment :: "recipient list option"
  segment_info :: string

text \<open>One variant's entry of \<open>deliverability_check\<close>, the result of \<open>full_check\<close>.\<close>

record deliverability =
  passed :: bool
  recommendations :: "string list"

text \<open>The counters of the dict \<open>get_campaign_metrics\<close> returns.\<close>

record tracker_metrics =
  tm_delivered :: int
  tm_opened :: int
  tm_clicked :: int
  tm_bounced :: int

text \<open>
  \<open>CampaignState\<close>, with the keys \<open>send_variant\<close> adds: \<open>sendgrid_message_ids\<close>,
  \<open>send_results\<close> and \<open>sendgrid_metrics\<close> (\<open>None\<close> while the key is absent), and the flags
  \<^verbatim>\<open>variant_<label>_sent\<close>, kept as the list \<open>sent_flags\<close> of the labels whose flag is
  set.
\<close>

record campaign_state =
  campaign_id :: string
  brief :: string
  csv_path :: string
  strategy :: strategy
  segments :: segmentation
  selected_recipients :: "recipient list"
  email_variants :: "(string \<times> email_content) list"
  ab_test_groups :: "(string \<times> recipient list) list"
  deliverability_check :: "(string \<times> deliverability) list"
  ab_results :: metrics_result
  campaign_report :: "report option"
  status :: string
  error :: string
  sendgrid_message_ids :: "(string \<times> string list) list option"
  send_results :: "(string \<times> batch_results) list option"
  sendgrid_metrics :: "(string \<times> tracker_metrics) list option"
  sent_flags :: "string list"

text \<open>
  The collaborators of the orchestrator and its configuration.  An answer of a
  collaborator that talks to the outside (mail, SendGrid statistics, files, the random
  source) may depend on the clock; the agents of the pipeline are called once per
  argument in a run and are functions of their arguments.  A tracker exists exactly when
  \<open>use_sendgrid\<close> holds (\<open>__init__\<close> sets both together).  \<open>uniform_scaled k (lo, hi) n\<close>
  is \<^verbatim>\<open>int(n * random.uniform(lo, hi))\<close>, and \<open>pct\<close> the float computation of a rate.
\<close>

record env =
  use_sendgrid :: bool
  sandbox_mode :: bool
  client :: "nat \<Rightarrow> send_request \<Rightarrow> client_response"
  smtp :: "nat \<Rightarrow> send_request \<Rightarrow> bool"
  get_campaign_metrics :: "nat \<Rightarrow> string \<Rightarrow> string list \<Rightarrow> py_error + tracker_metrics"
  log_opens_and_clicks :: "nat \<Rightarrow> string \<Rightarrow> string \<Rightarrow> recipient list \<Rightarrow> tracker_metrics
                           \<Rightarrow> py_error option"
  save_results :: "nat \<Rightarrow> string \<Rightarrow> py_error option"
  generate_campaign_report :: "nat \<Rightarrow> string \<Rightarrow> strategy \<Rightarrow> metrics_result
                               \<Rightarrow> (string \<times> deliverability) list \<Rightarrow> py_error + report"
  uniform_scaled :: "nat \<Rightarrow> rat \<times> rat \<Rightarrow> int \<Rightarrow> int"
  pct :: "int \<Rightarrow> int \<Rightarrow> rat"
  randbelow :: "nat \<Rightarrow> nat"
  strategy_agent :: "string \<Rightarrow> py_error + strategy option"
  segmentation_agent :: "string \<Rightarrow> strategy \<Rightarrow> py_error + segmentation"
  generate_email_content :: "strategy \<Rightarrow> recipient \<Rightarrow> string \<Rightarrow> string
                             \<Rightarrow> py_error + email_content"
  full_check :: "email_content \<Rightarrow> recipient list \<Rightarrow> py_error + deliverability"

text \<open>\<open>str(e)\<close> of an exception.\<close>

fun message_of :: "py_error \<Rightarrow> string" where
  "message_of ZeroDivisionError = ''integer division or modulo by zero''"
| "message_of TypeError = ''unsupported operand type(s)''"
| "message_of (Raised msg) = msg"

definition tick :: "world \<Rightarrow> world" where
  "tick w = w\<lparr>clock := clock w + 1\<rparr>"

text \<open>
  A call \<^verbatim>\<open>self.ab_testing_agent.record_event(...)\<close> of the orchestrator.  The
  orchestrator only passes the event names \<open>sent\<close>, \<open>opened\<close>, \<open>clicked\<close>, \<open>bounced\<close> and
  \<open>converted\<close>, for which \<open>record_event\<close> raises nothing.
\<close>

definition agent_record :: "world \<Rightarrow> string \<Rightarrow> string \<Rightarrow> string \<Rightarrow> int \<Rightarrow> world" where
  "agent_record w cid variant event cnt =
     w\<lparr>test_results := fst (record_event (test_results w) cid variant event cnt)\<rparr>"

subsection \<open>The pipeline: run\_campaign\<close>

definition create_strategy_node :: "env \<Rightarrow> campaign_state \<Rightarrow> campaign_state" where
  "create_strategy_node env state =
     (case strategy_agent env (brief state) of
        Inr strategy_result \<Rightarrow>
          state\<lparr>strategy := (case strategy_result of None \<Rightarrow> [] | Some s \<Rightarrow> s),
                status := ''strategy_created''\<rparr>
      | Inl e \<Rightarrow>
          state\<lparr>error := ''Strategy creation failed: '' @ message_of e,
                status := ''error''\<rparr>)"

definition segment_audience_node :: "env \<Rightarrow> campaign_state \<Rightarrow> campaign_state" where
  "segment_audience_node env state =
     (let strategy_input = AList.update ''brief'' (brief state) (strategy state)
      in case segmentation_agent env (csv_path state) strategy_input of
           Inr segs \<Rightarrow>
             state\<lparr>segments := segs,
                   selected_recipients :=
                     (case selected_segment segs of None \<Rightarrow> [] | Some rs \<Rightarrow> rs),
                   status := ''audience_segmented''\<rparr>
         | Inl e \<Rightarrow>
             state\<lparr>error := ''Segmentation failed: '' @ message_of e,
                   status := ''error''\<rparr>)"

text \<open>
  The loop of \<open>_generate_content\<close> over \<^verbatim>\<open>ab_groups.items()\<close>; the first exception
  ends it.  The keys of a dict are distinct, so every assignment
  \<^verbatim>\<open>email_variants[variant] = content\<close> adds a new key, in the order of the loop.
\<close>

fun generate_all ::
  "env \<Rightarrow> strategy \<Rightarrow> recipient \<Rightarrow> string \<Rightarrow> (string \<times> recipient list) list
   \<Rightarrow> py_error + (string \<times> email_content) list" where
  "generate_all env strat sample cid [] = Inr []"
| "generate_all env strat sample cid ((variant, grp) # rest) =
     (case generate_email_content env strat sample variant cid of
        Inl e \<Rightarrow> Inl e
      | Inr content \<Rightarrow>
          (case generate_all env strat sample cid rest of
             Inl e \<Rightarrow> Inl e
           | Inr others \<Rightarrow> Inr ((variant, content) # others)))"

text \<open>
  \<open>create_test_groups\<close> shuffles the list it is given in place.  That list is
  \<^verbatim>\<open>state["selected_recipients"]\<close>, which is also the list under
  \<^verbatim>\<open>state["segments"]["selected_segment"]\<close> when segmentation returned that key: both
  are shuffled, whether or not the stage succeeds afterwards.
\<close>

definition shuffled_in_place :: "env \<Rightarrow> campaign_state \<Rightarrow> campaign_state" where
  "shuffled_in_place env state =
     (let shuffled = shuffle (randbelow env) (selected_recipients state)
      in state\<lparr>selected_recipients := shuffled,
               segments :=
                 (case selected_segment (segments state) of
                    None \<Rightarrow> segments state
                  | Some _ \<Rightarrow> (segments state)\<lparr>selected_segment := Some shuffled\<rparr>)\<rparr>)"

definition sample_recipient_of :: "recipient list \<Rightarrow> recipient" where
  "sample_recipient_of recipients =
     (case recipients of
        [] \<Rightarrow> [(''name'', ''Customer''), (''email'', ''test@example.com'')]
      | r # _ \<Rightarrow> r)"

definition generate_content_node :: "env \<Rightarrow> campaign_state \<Rightarrow> campaign_state" where
  "generate_content_node env state =
     (let recipients = selected_recipients state;
          num_variants = 2;
          groups = create_test_groups (randbelow env) recipients num_variants;
          state = shuffled_in_place env state;
          recipients = selected_recipients state
      in case groups of
           Inl e \<Rightarrow>
             state\<lparr>error := ''Content generation failed: '' @ message_of e,
                   status := ''error''\<rparr>
         | Inr ab_groups \<Rightarrow>
             let state = state\<lparr>ab_test_groups := ab_groups\<rparr>
             in case generate_all env (strategy state) (sample_recipient_of recipients)
                       (campaign_id state) ab_groups of
                  Inl e \<Rightarrow>
                    state\<lparr>error := ''Content generation failed: '' @ message_of e,
                          status := ''error''\<rparr>
                | Inr variants \<Rightarrow>
                    state\<lparr>email_variants := variants, status := ''content_generated''\<rparr>)"

text \<open>The loop of \<open>_check_deliverability\<close> over \<^verbatim>\<open>state["email_variants"].items()\<close>.\<close>

fun check_all ::
  "env \<Rightarrow> (string \<times> recipient list) list \<Rightarrow> (string \<times> email_content) list
   \<Rightarrow> py_error + (string \<times> deliverability) list" where
  "check_all env groups [] = Inr []"
| "check_all env groups ((variant, content) # rest) =
     (case full_check env content (dict_get groups variant []) of
        Inl e \<Rightarrow> Inl e
      | Inr chk \<Rightarrow>
          (case check_all env groups rest of
             Inl e \<Rightarrow> Inl e
           | Inr others \<Rightarrow> Inr ((variant, chk) # others)))"

definition check_deliverability_node :: "env \<Rightarrow> campaign_state \<Rightarrow> campaign_state" where
  "check_deliverability_node env state =
     (case check_all env (ab_test_groups state) (email_variants state) of
        Inr all_checks \<Rightarrow>
          state\<lparr>deliverability_check := all_checks, status := ''deliverability_checked''\<rparr>
      | Inl e \<Rightarrow>
          state\<lparr>error := ''Deliverability check failed: '' @ message_of e,
                status := ''error''\<rparr>)"

text \<open>
  \<open>_should_proceed\<close> reads the check results, but \<open>_build_workflow\<close> wires it to no edge:
  no path of the orchestrator calls it.
\<close>

definition should_proceed :: "campaign_state \<Rightarrow> string" where
  "should_proceed state =
     (if list_ex (\<lambda>(variant, chk). passed chk) (deliverability_check state)
      then ''proceed'' else ''fix'')"

text \<open>
  The compiled graph of \<open>_build_workflow\<close>: the entry point \<open>create_strategy\<close> and the
  unconditional edges to \<open>segment_audience\<close>, \<open>generate_content\<close>,
  \<open>check_deliverability\<close> and \<open>END\<close>.  Every node returns the whole state, so invoking
  the graph applies the four nodes in this order.
\<close>

definition workflow :: "env \<Rightarrow> campaign_state \<Rightarrow> campaign_state" where
  "workflow env state =
     check_deliverability_node env
       (generate_content_node env
          (segment_audience_node env
             (create_strategy_node env state)))"

definition initial_state :: "string \<Rightarrow> string \<Rightarrow> string \<Rightarrow> campaign_state" where
  "initial_state cid b csv =
     \<lparr>campaign_id = cid, brief = b, csv_path = csv, strategy = [],
      segments = \<lparr>selected_segment = None, segment_info = []\<rparr>,
      selected_recipients = [], email_variants = [], ab_test_groups = [],
      deliverability_check = [], ab_results = Results [], campaign_report = None,
      status = ''initialized'', error = [],
      sendgrid_message_ids = None, send_results = None, sendgrid_metrics = None,
      sent_flags = []\<rparr>"

text \<open>
  \<open>run_campaign\<close>, with the generated campaign id as an argument.  No node lets an
  exception escape, so the \<open>except\<close> branch around \<open>invoke\<close> is never taken.
\<close>

definition run_campaign :: "env \<Rightarrow> string \<Rightarrow> string \<Rightarrow> string \<Rightarrow> campaign_state" where
  "run_campaign env cid b csv =
     (workflow env (initial_state cid b csv))\<lparr>status := ''ready_to_send''\<rparr>"

subsection \<open>Manual dispatch: send\_variant and process\_results\<close>

text \<open>
  \<open>EmailSender.send_batch\<close> (SMTP): every recipient is sent to, also one without an
  address; the result has the keys \<open>total\<close>, \<open>sent\<close>, \<open>failed\<close> and \<open>errors\<close> only (the
  other fields stay empty).  The SMTP \<open>send_email\<close> takes no variant and no campaign id.
\<close>

definition smtp_request_of :: "string \<Rightarrow> string \<Rightarrow> recipient \<Rightarrow> send_request" where
  "smtp_request_of subject body recipient =
     \<lparr>rq_email = dict_get recipient ''email'' [],
      rq_name = dict_get recipient ''name'' ''Customer'',
      rq_subject = subject, rq_body = body, rq_variant = [], rq_campaign = []\<rparr>"

fun smtp_loop ::
  "(nat \<Rightarrow> send_request \<Rightarrow> bool) \<Rightarrow> string \<Rightarrow> string \<Rightarrow> recipient list \<Rightarrow> batch_results
   \<Rightarrow> world \<Rightarrow> batch_results \<times> world" where
  "smtp_loop server subject body [] results w = (results, w)"
| "smtp_loop server subject body (recipient # rest) results w =
     (let request = smtp_request_of subject body recipient;
          ok = server (clock w) request;
          w = w\<lparr>clock := clock w + 1, outbox := outbox w @ [request]\<rparr>
      in if ok
         then smtp_loop server subject body rest (results\<lparr>b_sent := b_sent results + 1\<rparr>) w
         else smtp_loop server subject body rest
                (results\<lparr>failed := failed results + 1,
                         errors := errors results
                           @ [(rq_email request, SendFailed (SendException ''Failed to send''))]\<rparr>)
                w)"

definition smtp_send_batch ::
  "(nat \<Rightarrow> send_request \<Rightarrow> bool) \<Rightarrow> recipient list \<Rightarrow> email_content \<Rightarrow> world
   \<Rightarrow> batch_results \<times> world" where
  "smtp_send_batch server recipients email_content w =
     (let results = \<lparr>total = int (length recipients), b_sent = 0, failed = 0, message_ids = [],
                     errors = [], per_recipient = [], sandbox = False\<rparr>;
          subject = dict_get email_content ''subject'' ''No Subject'';
          body = dict_get email_content ''full_content'' (dict_get email_content ''body'' [])
      in smtp_loop server subject body recipients results w)"

definition opt_dict :: "('k \<times> 'v) list option \<Rightarrow> ('k \<times> 'v) list" where
  "opt_dict d = (case d of None \<Rightarrow> [] | Some kvs \<Rightarrow> kvs)"

text \<open>
  Fetching the SendGrid metrics of a sent variant, as both \<open>send_variant\<close> and
  \<open>process_results\<close> do: ask the tracker, record \<open>opened\<close>, \<open>clicked\<close> and \<open>bounced\<close>, log
  to the activity CSV, store the metrics in the state.  The tracker and the log may raise;
  the result carries the exception, with the state and the world as they are then.
\<close>

definition fetch_metrics ::
  "env \<Rightarrow> string \<Rightarrow> recipient list \<Rightarrow> string list \<Rightarrow> campaign_state \<Rightarrow> world
   \<Rightarrow> (campaign_state \<times> world) \<times> py_error option" where
  "fetch_metrics env variant recipients ids state w =
     (case get_campaign_metrics env (clock w) (campaign_id state) ids of
        Inl e \<Rightarrow> ((state, tick w), Some e)
      | Inr m \<Rightarrow>
          let w = tick w;
              w = agent_record w (campaign_id state) variant ''opened'' (tm_opened m);
              w = agent_record w (campaign_id state) variant ''clicked'' (tm_clicked m);
              w = agent_record w (campaign_id state) variant ''bounced'' (tm_bounced m)
          in case log_opens_and_clicks env (clock w) (campaign_id state) variant recipients m of
               Some e \<Rightarrow> ((state, tick w), Some e)
             | None \<Rightarrow>
                 ((state\<lparr>sendgrid_metrics :=
                     Some (AList.update variant m (opt_dict (sendgrid_metrics state)))\<rparr>,
                   tick w), None))"

text \<open>The loop of \<open>process_results\<close> over \<^verbatim>\<open>ab_groups.keys()\<close>.\<close>

fun process_variants ::
  "env \<Rightarrow> (string \<times> recipient list) list \<Rightarrow> (string \<times> string list) list \<Rightarrow> string list
   \<Rightarrow> campaign_state \<Rightarrow> world \<Rightarrow> (campaign_state \<times> world) \<times> py_error option" where
  "process_variants env ab_groups ids [] state w = ((state, w), None)"
| "process_variants env ab_groups ids (variant # rest) state w =
     (if variant \<in> set (sent_flags state)
      then
        if use_sendgrid env
        then
          let message_ids = dict_get ids variant []
          in if message_ids \<noteq> []
             then (case fetch_metrics env variant (dict_get ab_groups variant []) message_ids
                          state w of
                     ((state, w), Some e) \<Rightarrow> ((state, w), Some e)
                   | ((state, w), None) \<Rightarrow> process_variants env ab_groups ids rest state w)
             else process_variants env ab_groups ids rest state w
        else
          let cid = campaign_id state;
              n_sent = stored_count (test_results w) cid variant ''sent'';
              n_opened = uniform_scaled env (clock w) (15 / 100, 35 / 100) n_sent;
              w = tick w;
              n_clicked = uniform_scaled env (clock w) (10 / 100, 25 / 100) n_opened;
              w = tick w;
              n_converted = uniform_scaled env (clock w) (5 / 100, 15 / 100) n_clicked;
              w = tick w;
              w = agent_record w cid variant ''opened'' n_opened;
              w = agent_record w cid variant ''clicked'' n_clicked;
              w = agent_record w cid variant ''converted'' n_converted
          in process_variants env ab_groups ids rest state w
      else process_variants env ab_groups ids rest state w)"

text \<open>
  \<open>process_results\<close>.  Its only use of \<open>deliverability_check\<close> is as an argument of the
  report.  An exception anywhere leaves the state as it is then, with \<open>error\<close> set.
\<close>

definition process_results :: "env \<Rightarrow> campaign_state \<Rightarrow> world \<Rightarrow> campaign_state \<times> world" where
  "process_results env state w =
     (let cid = campaign_id state;
          ab_groups = ab_test_groups state;
          ids = opt_dict (sendgrid_message_ids state)
      in case process_variants env ab_groups ids (map fst ab_groups) state w of
           ((state, w), Some e) \<Rightarrow>
             (state\<lparr>error := ''Failed to process results: '' @ message_of e\<rparr>, w)
         | ((state, w), None) \<Rightarrow>
             let results = calculate_metrics (pct env) (test_results w) cid;
                 state = state\<lparr>ab_results := results\<rparr>
             in case save_results env (clock w) cid of
                  Some e \<Rightarrow>
                    (state\<lparr>error := ''Failed to process results: '' @ message_of e\<rparr>, tick w)
                | None \<Rightarrow>
                    let w = tick w
                    in case generate_campaign_report env (clock w) cid (strategy state) results
                              (deliverability_check state) of
                         Inl e \<Rightarrow>
                           (state\<lparr>error := ''Failed to process results: '' @ message_of e\<rparr>,
                            tick w)
                       | Inr rep \<Rightarrow>
                           let state = state\<lparr>campaign_report := Some rep\<rparr>
                           in (case get_winner (pct env) (test_results w) cid ''open_rate'' of
                                 Some winner \<Rightarrow>
                                   state\<lparr>status := ''completed_winner_'' @ winner\<rparr>
                               | None \<Rightarrow> state\<lparr>status := ''completed''\<rparr>,
                               tick w))"

text \<open>
  The body of \<open>send_variant\<close> between the validation and the check whether every variant
  has been sent: the send through SendGrid or SMTP and its bookkeeping.  The message set on
  a batch without any success ends with the first errors of the batch, which are left out
  here.
\<close>

definition dispatch ::
  "env \<Rightarrow> campaign_state \<Rightarrow> string \<Rightarrow> recipient list \<Rightarrow> email_content \<Rightarrow> world
   \<Rightarrow> campaign_state \<times> world" where
  "dispatch env state variant recipients content w =
     (let cid = campaign_id state;
          state = state\<lparr>sendgrid_message_ids := Some (opt_dict (sendgrid_message_ids state)),
                        send_results := Some (opt_dict (send_results state))\<rparr>
      in if use_sendgrid env
         then
           let (results, w) = send_batch (client env) (sandbox_mode env) recipients content
                                variant cid w;
               state = state\<lparr>send_results :=
                               Some (AList.update variant results (opt_dict (send_results state)))\<rparr>;
               ids = map snd (message_ids results);
               state = state\<lparr>sendgrid_message_ids :=
                               Some (AList.update variant ids
                                       (opt_dict (sendgrid_message_ids state)))\<rparr>;
               w = (if b_sent results > 0 then agent_record w cid variant ''sent'' (b_sent results)
                    else w);
               state = (if b_sent results = 0 \<and> total results > 0
                        then state\<lparr>error := ''Failed to send emails. Check logs for details.''\<rparr>
                        else state);
               (state, w) = (if ids \<noteq> []
                             then fst (fetch_metrics env variant recipients ids state w)
                             else (state, w))
           in (state\<lparr>status := ''variant_'' @ variant @ ''_sent'',
                     sent_flags := List.insert variant (sent_flags state)\<rparr>, w)
         else
           let (results, w) = smtp_send_batch (smtp env) recipients content w;
               w = agent_record w cid variant ''sent'' (b_sent results);
               state = state\<lparr>send_results :=
                               Some (AList.update variant results (opt_dict (send_results state)))\<rparr>
           in (state\<lparr>status := ''variant_'' @ variant @ ''_sent'',
                     sent_flags := List.insert variant (sent_flags state)\<rparr>, w))"

text \<open>
  \<open>send_variant\<close>: the variant must be a key of both dicts, with recipients and content;
  then the dispatch, and \<open>process_results\<close> once the flag of every variant of
  \<open>ab_test_groups\<close> is set.  The sent flag of the variant itself is not read before
  sending.
\<close>

definition send_variant ::
  "env \<Rightarrow> campaign_state \<Rightarrow> string \<Rightarrow> world \<Rightarrow> campaign_state \<times> world" where
  "send_variant env campaign_state variant w =
     (case (map_of (ab_test_groups campaign_state) variant,
            map_of (email_variants campaign_state) variant) of
        (Some recipients, Some content) \<Rightarrow>
          if recipients = []
          then (campaign_state\<lparr>error := ''No recipients found for Variant '' @ variant\<rparr>, w)
          else if content = []
          then (campaign_state\<lparr>error := ''No email content found for Variant '' @ variant\<rparr>, w)
          else
            let (state, w) = dispatch env campaign_state variant recipients content w;
                all_variants = map fst (ab_test_groups state)
            in if all_variants \<noteq> [] \<and> list_all (\<lambda>v. v \<in> set (sent_flags state)) all_variants
               then process_results env state w
               else (state, w)
      | _ \<Rightarrow> (campaign_state\<lparr>error := ''Variant '' @ variant @ '' not found''\<rparr>, w))"

text \<open>
  The guard of the dashboard (app.py), which offers the send button of a variant, and
  calls \<open>send_variant\<close> in its send-all loop, only while the variant's flag is not set:
  \<^verbatim>\<open>if not state_after.get(f"variant_{v}_sent"): state_after = orchestrator.send_variant(state_after, v)\<close>.
\<close>

definition send_variant_if_unsent ::
  "env \<Rightarrow> campaign_state \<Rightarrow> string \<Rightarrow> world \<Rightarrow> campaign_state \<times> world" where
  "send_variant_if_unsent env state v w =
     (if v \<notin> set (sent_flags state) then send_variant env state v w else (state, w))"


section \<open>Properties of the orchestrator\<close>

subsection \<open>The pipeline\<close>

lemma create_test_groups_two_ok:
  "create_test_groups r xs 2 =
     Inr [(''A'', take (length xs div 2) (shuffle r xs)),
          (''B'', drop (length xs div 2) (shuffle r xs))]"
  by (rule groups_two)

lemma strategy_node_frame:
  "campaign_id (create_strategy_node env s) = campaign_id s"
  "brief (create_strategy_node env s) = brief s"
  "csv_path (create_strategy_node env s) = csv_path s"
  by (simp_all add: create_strategy_node_def split: sum.splits)

lemma segment_node_frame:
  "campaign_id (segment_audience_node env s) = campaign_id s"
  "brief (segment_audience_node env s) = brief s"
  "csv_path (segment_audience_node env s) = csv_path s"
  "strategy (segment_audience_node env s) = strategy s"
  by (simp_all add: segment_audience_node_def Let_def split: sum.splits)

lemma content_node_frame:
  "campaign_id (generate_content_node env s) = campaign_id s"
  "brief (generate_content_node env s) = brief s"
  "csv_path (generate_content_node env s) = csv_path s"
  "strategy (generate_content_node env s) = strategy s"
  "selected_recipients (generate_content_node env s) = shuffle (randbelow env) (selected_recipients s)"
  by (simp_all add: generate_content_node_def shuffled_in_place_def Let_def split: sum.splits)

lemma deliverability_node_frame:
  "campaign_id (check_deliverability_node env s) = campaign_id s"
  "brief (check_deliverability_node env s) = brief s"
  "csv_path (check_deliverability_node env s) = csv_path s"
  "strategy (check_deliverability_node env s) = strategy s"
  "segments (check_deliverability_node env s) = segments s"
  "selected_recipients (check_deliverability_node env s) = selected_recipients s"
  "ab_test_groups (check_deliverability_node env s) = ab_test_groups s"
  "email_variants (check_deliverability_node env s) = email_variants s"
  by (simp_all add: check_deliverability_node_def split: sum.splits)

text \<open>
  C3.  A failing stage records its message in \<open>error\<close> and sets the status \<open>error\<close>,
  leaving the fields of the earlier stages as they are (the content stage has by then
  shuffled the selected recipients in place and, when the split succeeded, stored the
  groups).  The run does not stop there: the graph has only unconditional edges, so the
  workflow is the four nodes applied in order, each on the state the one before returned,
  failed or not.  Across the whole workflow the campaign id, the brief, the CSV path and
  the strategy of the strategy stage are preserved, the selected recipients of the
  segmentation stage up to their order, and the groups and contents of the content stage.
\<close>

theorem workflow_continues_after_failure:
  "workflow env state
     = check_deliverability_node env (generate_content_node env
         (segment_audience_node env (create_strategy_node env state)))
   \<and> (\<forall>e. strategy_agent env (brief state) = Inl e \<longrightarrow>
         create_strategy_node env state
           = state\<lparr>error := ''Strategy creation failed: '' @ message_of e, status := ''error''\<rparr>)
   \<and> (\<forall>e. segmentation_agent env (csv_path state)
             (AList.update ''brief'' (brief state) (strategy state)) = Inl e \<longrightarrow>
         segment_audience_node env state
           = state\<lparr>error := ''Segmentation failed: '' @ message_of e, status := ''error''\<rparr>)
   \<and> (\<forall>e groups.
         create_test_groups (randbelow env) (selected_recipients state) 2 = Inr groups
         \<and> generate_all env (strategy state)
             (sample_recipient_of (shuffle (randbelow env) (selected_recipients state)))
             (campaign_id state) groups = Inl e \<longrightarrow>
         generate_content_node env state
           = (shuffled_in_place env state)\<lparr>ab_test_groups := groups,
                error := ''Content generation failed: '' @ message_of e, status := ''error''\<rparr>)
   \<and> (\<forall>e. check_all env (ab_test_groups state) (email_variants state) = Inl e \<longrightarrow>
         check_deliverability_node env state
           = state\<lparr>error := ''Deliverability check failed: '' @ message_of e,
                   status := ''error''\<rparr>)
   \<and> campaign_id (workflow env state) = campaign_id state
   \<and> brief (workflow env state) = brief state
   \<and> csv_path (workflow env state) = csv_path state
   \<and> strategy (workflow env state) = strategy (create_strategy_node env state)
   \<and> mset (selected_recipients (workflow env state))
       = mset (selected_recipients (segment_audience_node env (create_strategy_node env state)))
   \<and> ab_test_groups (workflow env state)
       = ab_test_groups (generate_content_node env
           (segment_audience_node env (create_strategy_node env state)))
   \<and> email_variants (workflow env state)
       = email_variants (generate_content_node env
           (segment_audience_node env (create_strategy_node env state)))"
proof (intro conjI allI impI)
  show "workflow env state
     = check_deliverability_node env (generate_content_node env
         (segment_audience_node env (create_strategy_node env state)))"
    by (simp add: workflow_def)
next
  fix e assume "strategy_agent env (brief state) = Inl e"
  then show "create_strategy_node env state
           = state\<lparr>error := ''Strategy creation failed: '' @ message_of e, status := ''error''\<rparr>"
    by (simp add: create_strategy_node_def)
next
  fix e assume "segmentation_agent env (csv_path state)
             (AList.update ''brief'' (brief state) (strategy state)) = Inl e"
  then show "segment_audience_node env state
           = state\<lparr>error := ''Segmentation failed: '' @ message_of e, status := ''error''\<rparr>"
    by (simp add: segment_audience_node_def)
next
  fix e groups
  assume "create_test_groups (randbelow env) (selected_recipients state) 2 = Inr groups
         \<and> generate_all env (strategy state)
             (sample_recipient_of (shuffle (randbelow env) (selected_recipients state)))
             (campaign_id state) groups = Inl e"
  then show "generate_content_node env state
           = (shuffled_in_place env state)\<lparr>ab_test_groups := groups,
                error := ''Content generation failed: '' @ message_of e, status := ''error''\<rparr>"
    by (simp add: generate_content_node_def shuffled_in_place_def Let_def)
next
  fix e assume "check_all env (ab_test_groups state) (email_variants state) = Inl e"
  then show "check_deliverability_node env state
           = state\<lparr>error := ''Deliverability check failed: '' @ message_of e,
                   status := ''error''\<rparr>"
    by (simp add: check_deliverability_node_def)
next
  show "campaign_id (workflow env state) = campaign_id state"
    by (simp add: workflow_def deliverability_node_frame content_node_frame segment_node_frame
        strategy_node_frame)
  show "brief (workflow env state) = brief state"
    by (simp add: workflow_def deliverability_node_frame content_node_frame segment_node_frame
        strategy_node_frame)
  show "csv_path (workflow env state) = csv_path state"
    by (simp add: workflow_def deliverability_node_frame content_node_frame segment_node_frame
        strategy_node_frame)
  show "strategy (workflow env state) = strategy (create_strategy_node env state)"
    by (simp add: workflow_def deliverability_node_frame content_node_frame segment_node_frame)
  show "mset (selected_recipients (workflow env state))
       = mset (selected_recipients (segment_audience_node env (create_strategy_node env state)))"
    by (simp add: workflow_def deliverability_node_frame content_node_frame mset_shuffle)
  show "ab_test_groups (workflow env state)
       = ab_test_groups (generate_content_node env
           (segment_audience_node env (create_strategy_node env state)))"
    by (simp add: workflow_def deliverability_node_frame)
  show "email_variants (workflow env state)
       = email_variants (generate_content_node env
           (segment_audience_node env (create_strategy_node env state)))"
    by (simp add: workflow_def deliverability_node_frame)
qed

text \<open>
  A run whose strategy stage fails while the agents of the later stages answer: two
  recipients are segmented, split into the groups A and B, content is generated and
  checked for both.
\<close>

definition two_recipients :: "recipient list" where
  "two_recipients = [[(''email'', ''a@example.org'')], [(''email'', ''b@example.org'')]]"

definition failing_strategy_env :: env where
  "failing_strategy_env =
     \<lparr>use_sendgrid = True, sandbox_mode = False,
      client = (\<lambda>k rq. Response 202 ''msg''),
      smtp = (\<lambda>k rq. True),
      get_campaign_metrics = (\<lambda>k cid ids. Inl (Raised ''no statistics'')),
      log_opens_and_clicks = (\<lambda>k cid v rs m. None),
      save_results = (\<lambda>k cid. None),
      generate_campaign_report = (\<lambda>k cid st res dc. Inr []),
      uniform_scaled = (\<lambda>k range n. 0),
      pct = (\<lambda>a b. of_int a * 100 / of_int b),
      randbelow = (\<lambda>n. 0),
      strategy_agent = (\<lambda>b. Inl (Raised ''LLM unavailable'')),
      segmentation_agent =
        (\<lambda>csv st. Inr \<lparr>selected_segment = Some two_recipients, segment_info = []\<rparr>),
      generate_email_content = (\<lambda>st r v cid. Inr [(''subject'', ''Hello ''  @ v)]),
      full_check = (\<lambda>c rs. Inr \<lparr>passed = False, recommendations = []\<rparr>)\<rparr>"

lemma shuffle_two_recipients:
  "shuffle (\<lambda>n. 0) two_recipients
     = [[(''email'', ''b@example.org'')], [(''email'', ''a@example.org'')]]"
  by (simp add: shuffle_def two_recipients_def)

lemma length_two_recipients: "length two_recipients = 2"
  by (simp add: two_recipients_def)

theorem run_campaign_failure_counterexample:
  "strategy_agent failing_strategy_env ''brief'' = Inl (Raised ''LLM unavailable'')
   \<and> status (run_campaign failing_strategy_env ''c1'' ''brief'' ''data.csv'') = ''ready_to_send''
   \<and> error (run_campaign failing_strategy_env ''c1'' ''brief'' ''data.csv'')
       = ''Strategy creation failed: LLM unavailable''
   \<and> ab_test_groups (run_campaign failing_strategy_env ''c1'' ''brief'' ''data.csv'')
       = [(''A'', [[(''email'', ''b@example.org'')]]), (''B'', [[(''email'', ''a@example.org'')]])]
   \<and> email_variants (run_campaign failing_strategy_env ''c1'' ''brief'' ''data.csv'')
       = [(''A'', [(''subject'', ''Hello A'')]), (''B'', [(''subject'', ''Hello B'')])]
   \<and> deliverability_check (run_campaign failing_strategy_env ''c1'' ''brief'' ''data.csv'')
       = [(''A'', \<lparr>passed = False, recommendations = []\<rparr>),
          (''B'', \<lparr>passed = False, recommendations = []\<rparr>)]"
  by (simp add: run_campaign_def workflow_def initial_state_def failing_strategy_env_def
      create_strategy_node_def segment_audience_node_def generate_content_node_def
      check_deliverability_node_def shuffled_in_place_def sample_recipient_of_def
      create_test_groups_two_ok shuffle_two_recipients length_two_recipients Let_def dict_get_def)

theorem workflow_continues_after_failure_witness:
  "strategy_agent failing_strategy_env (brief (initial_state ''c1'' ''brief'' ''data.csv''))
     = Inl (Raised ''LLM unavailable'')
   \<and> create_strategy_node failing_strategy_env (initial_state ''c1'' ''brief'' ''data.csv'')
       = (initial_state ''c1'' ''brief'' ''data.csv'')
           \<lparr>error := ''Strategy creation failed: '' @ message_of (Raised ''LLM unavailable''),
            status := ''error''\<rparr>
   \<and> workflow failing_strategy_env (initial_state ''c1'' ''brief'' ''data.csv'')
       = check_deliverability_node failing_strategy_env (generate_content_node failing_strategy_env
           (segment_audience_node failing_strategy_env
              (create_strategy_node failing_strategy_env
                 (initial_state ''c1'' ''brief'' ''data.csv''))))"
proof -
  have h: "strategy_agent failing_strategy_env (brief (initial_state ''c1'' ''brief'' ''data.csv''))
     = Inl (Raised ''LLM unavailable'')"
    by (simp add: failing_strategy_env_def)
  show ?thesis
    using h workflow_continues_after_failure[of failing_strategy_env
        "initial_state ''c1'' ''brief'' ''data.csv''"]
    by blast
qed

subsection \<open>Manual dispatch\<close>

lemma agent_record_frame [simp]:
  "clock (agent_record w cid v ev n) = clock w"
  "outbox (agent_record w cid v ev n) = outbox w"
  by (simp_all add: agent_record_def)

lemma tick_frame [simp]:
  "clock (tick w) = Suc (clock w)"
  "outbox (tick w) = outbox w"
  "test_results (tick w) = test_results w"
  by (simp_all add: tick_def)

text \<open>What a dispatch can see of a state besides the check results and the report.\<close>

definition dispatch_view ::
  "campaign_state \<Rightarrow>
     (string \<times> batch_results) list option \<times> (string \<times> string list) list option
     \<times> (string \<times> tracker_metrics) list option \<times> string list \<times> metrics_result" where
  "dispatch_view state =
     (send_results state, sendgrid_message_ids state, sendgrid_metrics state,
      sent_flags state, ab_results state)"

text \<open>A state with other check results.\<close>

definition with_check :: "(string \<times> deliverability) list \<Rightarrow> campaign_state \<Rightarrow> campaign_state" where
  "with_check d state = state\<lparr>deliverability_check := d\<rparr>"

lemma with_check_sel [simp]:
  "campaign_id (with_check d s) = campaign_id s"
  "strategy (with_check d s) = strategy s"
  "email_variants (with_check d s) = email_variants s"
  "ab_test_groups (with_check d s) = ab_test_groups s"
  "ab_results (with_check d s) = ab_results s"
  "campaign_report (with_check d s) = campaign_report s"
  "status (with_check d s) = status s"
  "error (with_check d s) = error s"
  "sendgrid_message_ids (with_check d s) = sendgrid_message_ids s"
  "send_results (with_check d s) = send_results s"
  "sendgrid_metrics (with_check d s) = sendgrid_metrics s"
  "sent_flags (with_check d s) = sent_flags s"
  "deliverability_check (with_check d s) = d"
  by (simp_all add: with_check_def)

lemma with_check_pull [simp]:
  "(with_check d s)\<lparr>sendgrid_message_ids := a\<rparr> = with_check d (s\<lparr>sendgrid_message_ids := a\<rparr>)"
  "(with_check d s)\<lparr>send_results := b\<rparr> = with_check d (s\<lparr>send_results := b\<rparr>)"
  "(with_check d s)\<lparr>sendgrid_metrics := c\<rparr> = with_check d (s\<lparr>sendgrid_metrics := c\<rparr>)"
  "(with_check d s)\<lparr>error := e\<rparr> = with_check d (s\<lparr>error := e\<rparr>)"
  "(with_check d s)\<lparr>status := f\<rparr> = with_check d (s\<lparr>status := f\<rparr>)"
  "(with_check d s)\<lparr>sent_flags := g\<rparr> = with_check d (s\<lparr>sent_flags := g\<rparr>)"
  "(with_check d s)\<lparr>ab_results := h\<rparr> = with_check d (s\<lparr>ab_results := h\<rparr>)"
  "(with_check d s)\<lparr>campaign_report := i\<rparr> = with_check d (s\<lparr>campaign_report := i\<rparr>)"
  by (simp_all add: with_check_def)

lemma dispatch_view_with_check [simp]: "dispatch_view (with_check d s) = dispatch_view s"
  by (simp add: dispatch_view_def)

lemma fetch_metrics_check:
  "fetch_metrics env v rs ids (with_check d s) w =
     (case fetch_metrics env v rs ids s w of
        ((s', w'), e) \<Rightarrow> ((with_check d s', w'), e))"
  by (simp add: fetch_metrics_def Let_def split: sum.splits option.splits)

lemma fetch_metrics_frame:
  assumes "fetch_metrics env v rs ids s w = ((s', w'), e)"
  shows "outbox w' = outbox w" and "\<exists>m. s' = s\<lparr>sendgrid_metrics := m\<rparr>"
proof -
  show "outbox w' = outbox w"
    using assms by (auto simp: fetch_metrics_def Let_def split: sum.splits option.splits)
  have "s' = s\<lparr>sendgrid_metrics := sendgrid_metrics s'\<rparr>"
    using assms by (auto simp: fetch_metrics_def Let_def split: sum.splits option.splits)
  then show "\<exists>m. s' = s\<lparr>sendgrid_metrics := m\<rparr>" by blast
qed

lemma process_variants_check:
  "process_variants env g ids vs (with_check d s) w =
     (case process_variants env g ids vs s w of
        ((s', w'), e) \<Rightarrow> ((with_check d s', w'), e))"
proof (induction vs arbitrary: s w)
  case Nil
  then show ?case by simp
next
  case (Cons v vs)
  show ?case
    by (simp add: Cons.IH fetch_metrics_check Let_def split: prod.splits option.splits)
qed

lemma process_variants_frame:
  "process_variants env g ids vs s w = ((s', w'), e) \<Longrightarrow>
     outbox w' = outbox w \<and> (\<exists>m. s' = s\<lparr>sendgrid_metrics := m\<rparr>)"
proof (induction vs arbitrary: s w)
  case Nil
  then have "s' = s\<lparr>sendgrid_metrics := sendgrid_metrics s\<rparr>" "w' = w" by simp_all
  then show ?case by blast
next
  case (Cons v vs)
  show ?case
  proof (cases "v \<in> set (sent_flags s)")
    case False
    then show ?thesis using Cons by simp
  next
    case True
    show ?thesis
    proof (cases "use_sendgrid env")
      case False
      with True obtain w1 where "process_variants env g ids vs s w1 = ((s', w'), e)"
        "outbox w1 = outbox w"
        using Cons.prems by (simp add: Let_def)
      with Cons.IH show ?thesis by metis
    next
      case sg: True
      show ?thesis
      proof (cases "dict_get ids v [] = []")
        case True
        then show ?thesis using Cons sg \<open>v \<in> set (sent_flags s)\<close> by (simp add: Let_def)
      next
        case False
        obtain s1 w1 e1 where f:
          "fetch_metrics env v (dict_get g v []) (dict_get ids v []) s w = ((s1, w1), e1)"
          by (metis prod.exhaust)
        from fetch_metrics_frame[OF f] obtain m1 where
          f1: "outbox w1 = outbox w" "s1 = s\<lparr>sendgrid_metrics := m1\<rparr>" by blast
        show ?thesis
        proof (cases e1)
          case None
          then have "process_variants env g ids vs s1 w1 = ((s', w'), e)"
            using Cons.prems sg False \<open>v \<in> set (sent_flags s)\<close> f by (simp add: Let_def)
          from Cons.IH[OF this] obtain m where "outbox w' = outbox w1" "s' = s1\<lparr>sendgrid_metrics := m\<rparr>"
            by blast
          then show ?thesis using f1 by auto
        next
          case (Some err)
          then have "s' = s1" "w' = w1"
            using Cons.prems sg False \<open>v \<in> set (sent_flags s)\<close> f by (simp_all add: Let_def)
          then show ?thesis using f1 by auto
        qed
      qed
    qed
  qed
qed

lemma process_results_outbox:
  "outbox (snd (process_results env s w)) = outbox w"
proof -
  obtain s1 w1 e1 where p:
    "process_variants env (ab_test_groups s) (opt_dict (sendgrid_message_ids s))
        (map fst (ab_test_groups s)) s w = ((s1, w1), e1)"
    by (metis prod.exhaust)
  from process_variants_frame[OF p] have "outbox w1 = outbox w" by blast
  then show ?thesis
    by (simp add: process_results_def p Let_def split: option.splits sum.splits)
qed

lemma process_results_sent_flags:
  "sent_flags (fst (process_results env s w)) = sent_flags s"
proof -
  obtain s1 w1 e1 where p:
    "process_variants env (ab_test_groups s) (opt_dict (sendgrid_message_ids s))
        (map fst (ab_test_groups s)) s w = ((s1, w1), e1)"
    by (metis prod.exhaust)
  from process_variants_frame[OF p] obtain m where "s1 = s\<lparr>sendgrid_metrics := m\<rparr>" by blast
  then show ?thesis
    by (simp add: process_results_def p Let_def split: option.splits sum.splits)
qed

lemma process_results_check:
  "snd (process_results env (with_check d s) w) = snd (process_results env s w)
   \<and> dispatch_view (fst (process_results env (with_check d s) w))
       = dispatch_view (fst (process_results env s w))"
proof -
  obtain s1 w1 e1 where p:
    "process_variants env (ab_test_groups s) (opt_dict (sendgrid_message_ids s))
        (map fst (ab_test_groups s)) s w = ((s1, w1), e1)"
    by (metis prod.exhaust)
  from process_variants_frame[OF p] obtain m where s1: "s1 = s\<lparr>sendgrid_metrics := m\<rparr>" by blast
  show ?thesis
    by (simp add: process_results_def process_variants_check p s1 Let_def dispatch_view_def
        split: option.splits sum.splits)
qed

lemma dispatch_check:
  "dispatch env (with_check d s) v rs c w =
     (case dispatch env s v rs c w of (s', w') \<Rightarrow> (with_check d s', w'))"
  by (auto simp: dispatch_def fetch_metrics_check Let_def case_prod_beta)

lemma smtp_loop_outbox:
  "outbox (snd (smtp_loop server subject body rs results w))
     = outbox w @ map (smtp_request_of subject body) rs"
  by (induction rs arbitrary: results w) (simp_all add: Let_def)

lemma fetch_metrics_outbox:
  "outbox (snd (fst (fetch_metrics env v rs ids s w))) = outbox w"
  using fetch_metrics_frame(1)[of env v rs ids s w] by (metis prod.collapse)

lemma fetch_metrics_keeps:
  "sent_flags (fst (fst (fetch_metrics env v rs ids s w))) = sent_flags s"
  "ab_test_groups (fst (fst (fetch_metrics env v rs ids s w))) = ab_test_groups s"
  "email_variants (fst (fst (fetch_metrics env v rs ids s w))) = email_variants s"
  "campaign_id (fst (fst (fetch_metrics env v rs ids s w))) = campaign_id s"
  by (simp_all add: fetch_metrics_def Let_def split: sum.splits option.splits)

text \<open>The requests a dispatch of a variant makes: SendGrid skips recipients without an
  address, SMTP sends to every recipient.\<close>

definition requests_of ::
  "env \<Rightarrow> string \<Rightarrow> string \<Rightarrow> recipient list \<Rightarrow> email_content \<Rightarrow> send_request list" where
  "requests_of env cid variant recipients content =
     (if use_sendgrid env
      then map (request_of (subject_of content) (body_of content) variant cid)
             (filter has_email recipients)
      else map (smtp_request_of (dict_get content ''subject'' ''No Subject'')
                  (dict_get content ''full_content'' (dict_get content ''body'' [])))
             recipients)"

lemma send_batch_outbox:
  "outbox (snd (send_batch c sb rs e v cid w))
     = outbox w @ map (request_of (subject_of e) (body_of e) v cid) (filter has_email rs)"
  using send_batch_char[of c sb rs e v cid w] by (metis prod.collapse)

lemma dispatch_outbox:
  "outbox (snd (dispatch env s v rs c w)) = outbox w @ requests_of env (campaign_id s) v rs c"
  by (simp add: dispatch_def requests_of_def Let_def case_prod_beta send_batch_outbox
      smtp_send_batch_def smtp_loop_outbox fetch_metrics_outbox)

lemma dispatch_keeps:
  "v \<in> set (sent_flags (fst (dispatch env s v rs c w)))"
  "ab_test_groups (fst (dispatch env s v rs c w)) = ab_test_groups s"
  "email_variants (fst (dispatch env s v rs c w)) = email_variants s"
  "campaign_id (fst (dispatch env s v rs c w)) = campaign_id s"
  by (simp_all add: dispatch_def Let_def case_prod_beta fetch_metrics_keeps)

lemma process_results_keeps:
  "ab_test_groups (fst (process_results env s w)) = ab_test_groups s
   \<and> email_variants (fst (process_results env s w)) = email_variants s
   \<and> campaign_id (fst (process_results env s w)) = campaign_id s"
proof -
  obtain s1 w1 e1 where p:
    "process_variants env (ab_test_groups s) (opt_dict (sendgrid_message_ids s))
        (map fst (ab_test_groups s)) s w = ((s1, w1), e1)"
    by (metis prod.exhaust)
  from process_variants_frame[OF p] obtain m where "s1 = s\<lparr>sendgrid_metrics := m\<rparr>" by blast
  then show ?thesis
    by (simp add: process_results_def p Let_def split: option.splits sum.splits)
qed

lemma send_variant_valid:
  assumes "map_of (ab_test_groups s) v = Some rs" "rs \<noteq> []"
    and "map_of (email_variants s) v = Some c" "c \<noteq> []"
  shows "outbox (snd (send_variant env s v w)) = outbox w @ requests_of env (campaign_id s) v rs c"
    and "v \<in> set (sent_flags (fst (send_variant env s v w)))"
    and "ab_test_groups (fst (send_variant env s v w)) = ab_test_groups s"
    and "email_variants (fst (send_variant env s v w)) = email_variants s"
    and "campaign_id (fst (send_variant env s v w)) = campaign_id s"
  using assms
  by (simp_all add: send_variant_def Let_def case_prod_beta dispatch_outbox dispatch_keeps
      process_results_outbox process_results_sent_flags process_results_keeps)

text \<open>The result dict of the batch a dispatch of a variant sends.\<close>

definition batch_of ::
  "env \<Rightarrow> string \<Rightarrow> string \<Rightarrow> recipient list \<Rightarrow> email_content \<Rightarrow> world \<Rightarrow> batch_results" where
  "batch_of env cid variant recipients content w =
     (if use_sendgrid env
      then fst (send_batch (client env) (sandbox_mode env) recipients content variant cid w)
      else fst (smtp_send_batch (smtp env) recipients content w))"

lemma fetch_metrics_keeps_results:
  "send_results (fst (fst (fetch_metrics env v rs ids s w))) = send_results s"
  "sendgrid_message_ids (fst (fst (fetch_metrics env v rs ids s w))) = sendgrid_message_ids s"
  by (simp_all add: fetch_metrics_def Let_def split: sum.splits option.splits)

lemma fetch_metrics_clock:
  "clock w \<le> clock (snd (fst (fetch_metrics env v rs ids s w)))"
  by (simp add: fetch_metrics_def Let_def split: sum.splits option.splits)

lemma send_batch_clock:
  "clock (snd (send_batch c sb rs e v cid w)) = clock w + length (filter has_email rs)"
  using send_batch_char[of c sb rs e v cid w] by (metis prod.collapse)

lemma send_batch_b_sent:
  "b_sent (fst (send_batch c sb rs e v cid w))
     = int (length (filter (\<lambda>x. success (snd x))
         (outcomes c (subject_of e) (body_of e) v cid (clock w) (filter has_email rs))))"
  using send_batch_char[of c sb rs e v cid w] by (metis prod.collapse)

lemma dispatch_results:
  "map_of (opt_dict (send_results (fst (dispatch env s v rs c w)))) v
     = Some (batch_of env (campaign_id s) v rs c w)"
  "use_sendgrid env \<Longrightarrow>
   map_of (opt_dict (sendgrid_message_ids (fst (dispatch env s v rs c w)))) v
     = Some (map snd (message_ids (batch_of env (campaign_id s) v rs c w)))"
  "sent_flags (fst (dispatch env s v rs c w)) = List.insert v (sent_flags s)"
  by (simp_all add: dispatch_def batch_of_def Let_def case_prod_beta fetch_metrics_keeps
      fetch_metrics_keeps_results update_conv' opt_dict_def)

lemma dispatch_clock:
  "use_sendgrid env \<Longrightarrow>
   clock w + length (filter has_email rs) \<le> clock (snd (dispatch env s v rs c w))"
  by (auto simp: dispatch_def Let_def case_prod_beta send_batch_clock
      intro: order_trans[OF _ fetch_metrics_clock])

lemma process_results_keeps_results:
  "send_results (fst (process_results env s w)) = send_results s
   \<and> sendgrid_message_ids (fst (process_results env s w)) = sendgrid_message_ids s"
proof -
  obtain s1 w1 e1 where p:
    "process_variants env (ab_test_groups s) (opt_dict (sendgrid_message_ids s))
        (map fst (ab_test_groups s)) s w = ((s1, w1), e1)"
    by (metis prod.exhaust)
  from process_variants_frame[OF p] obtain m where "s1 = s\<lparr>sendgrid_metrics := m\<rparr>" by blast
  then show ?thesis
    by (simp add: process_results_def p Let_def split: option.splits sum.splits)
qed

lemma send_variant_results:
  assumes "map_of (ab_test_groups s) v = Some rs" "rs \<noteq> []"
    and "map_of (email_variants s) v = Some c" "c \<noteq> []"
  shows "map_of (opt_dict (send_results (fst (send_variant env s v w)))) v
           = Some (batch_of env (campaign_id s) v rs c w)"
    and "use_sendgrid env \<Longrightarrow>
         map_of (opt_dict (sendgrid_message_ids (fst (send_variant env s v w)))) v
           = Some (map snd (message_ids (batch_of env (campaign_id s) v rs c w)))"
  using assms
  by (simp_all add: send_variant_def Let_def case_prod_beta dispatch_results
      process_results_keeps_results)

lemma send_variant_unfinished:
  assumes "map_of (ab_test_groups s) v = Some rs" "rs \<noteq> []"
    and "map_of (email_variants s) v = Some c" "c \<noteq> []"
    and "\<not> list_all (\<lambda>x. x \<in> set (List.insert v (sent_flags s))) (map fst (ab_test_groups s))"
  shows "send_variant env s v w = dispatch env s v rs c w"
  using assms
  by (simp add: send_variant_def Let_def case_prod_beta dispatch_results dispatch_keeps)

text \<open>
  C9.  Two states that differ only in \<open>deliverability_check\<close>, one possibly with every
  variant failed: \<open>send_variant\<close> for a label leaves the same world behind (the same
  requests sent in the same order with the same answers, the same recorded events) and
  the same send results, message ids, metrics, sent flags and A/B results in the state.
  The check results only reach the report that \<open>process_results\<close> generates.
\<close>

theorem send_variant_ignores_deliverability_check:
  "snd (send_variant env (state\<lparr>deliverability_check := d\<rparr>) variant w)
     = snd (send_variant env state variant w)
   \<and> dispatch_view (fst (send_variant env (state\<lparr>deliverability_check := d\<rparr>) variant w))
       = dispatch_view (fst (send_variant env state variant w))"
proof -
  have wc: "state\<lparr>deliverability_check := d\<rparr> = with_check d state"
    by (simp add: with_check_def)
  show ?thesis
  proof (cases "map_of (ab_test_groups state) variant")
    case None
    then show ?thesis unfolding wc by (simp add: send_variant_def)
  next
    case (Some rs)
    note rs = this
    show ?thesis
    proof (cases "map_of (email_variants state) variant")
      case None
      then show ?thesis unfolding wc using rs by (simp add: send_variant_def)
    next
      case (Some c)
      show ?thesis
      proof (cases "rs = [] \<or> c = []")
        case True
        then show ?thesis unfolding wc using rs Some by (auto simp: send_variant_def)
      next
        case False
        obtain s' w' where dsp: "dispatch env state variant rs c w = (s', w')"
          by (cases "dispatch env state variant rs c w")
        have dsp': "dispatch env (with_check d state) variant rs c w = (with_check d s', w')"
          by (simp add: dispatch_check dsp)
        show ?thesis
          unfolding wc using rs Some False process_results_check[of env d s' w']
          by (simp add: send_variant_def dsp dsp')
      qed
    qed
  qed
qed

text \<open>A campaign ready for sending, through SendGrid, with every send accepted.\<close>

definition accepting_env :: env where
  "accepting_env =
     \<lparr>use_sendgrid = True, sandbox_mode = False,
      client = (\<lambda>k rq. Response 202 ''msg''),
      smtp = (\<lambda>k rq. True),
      get_campaign_metrics = (\<lambda>k cid ids. Inl (Raised ''no statistics'')),
      log_opens_and_clicks = (\<lambda>k cid v rs m. None),
      save_results = (\<lambda>k cid. None),
      generate_campaign_report = (\<lambda>k cid st res dc. Inr []),
      uniform_scaled = (\<lambda>k range n. 0),
      pct = (\<lambda>a b. of_int a * 100 / of_int b),
      randbelow = (\<lambda>n. 0),
      strategy_agent = (\<lambda>b. Inr None),
      segmentation_agent = (\<lambda>csv st. Inr \<lparr>selected_segment = None, segment_info = []\<rparr>),
      generate_email_content = (\<lambda>st r v cid. Inr hello_content),
      full_check = (\<lambda>c rs. Inr \<lparr>passed = True, recommendations = []\<rparr>)\<rparr>"

definition ready_state :: campaign_state where
  "ready_state =
     (initial_state ''c1'' ''brief'' ''data.csv'')
       \<lparr>ab_test_groups := [(''A'', two_recipients), (''B'', [[(''email'', ''c@example.org'')]])],
        email_variants := [(''A'', hello_content), (''B'', hello_content)],
        status := ''ready_to_send''\<rparr>"

lemma ready_state_A:
  "map_of (ab_test_groups ready_state) ''A'' = Some two_recipients"
  "two_recipients \<noteq> []"
  "map_of (email_variants ready_state) ''A'' = Some hello_content"
  "hello_content \<noteq> []"
  "length (requests_of accepting_env cid ''A'' two_recipients hello_content) = 2"
  by (simp_all add: ready_state_def two_recipients_def hello_content_def requests_of_def
      accepting_env_def has_email_def dict_get_def)

text \<open>
  C1.  \<open>send_variant\<close> does not read the sent flag of the label it is asked to send: for
  a label with recipients and content it sends the batch, one request for each recipient
  SendGrid addresses (each recipient under SMTP), whether or not the flag is already set,
  stores the result of this batch as the label's send results (and, under SendGrid, its
  message ids), replacing what an earlier send stored there, and sets the flag.  The guard
  against a repeated send is the caller's: the dashboard calls \<open>send_variant\<close> only while
  the flag is not set, and a guarded call for a label already sent returns the state and
  the world unchanged, with no send.
\<close>

theorem dispatch_guard_is_in_the_caller:
  "(v \<in> set (sent_flags state) \<longrightarrow> send_variant_if_unsent env state v w = (state, w))
   \<and> (\<forall>rs c. map_of (ab_test_groups state) v = Some rs \<and> rs \<noteq> []
              \<and> map_of (email_variants state) v = Some c \<and> c \<noteq> [] \<longrightarrow>
         outbox (snd (send_variant env state v w))
           = outbox w @ requests_of env (campaign_id state) v rs c
         \<and> v \<in> set (sent_flags (fst (send_variant env state v w)))
         \<and> map_of (opt_dict (send_results (fst (send_variant env state v w)))) v
             = Some (batch_of env (campaign_id state) v rs c w)
         \<and> (use_sendgrid env \<longrightarrow>
              map_of (opt_dict (sendgrid_message_ids (fst (send_variant env state v w)))) v
                = Some (map snd (message_ids (batch_of env (campaign_id state) v rs c w)))))"
  by (simp add: send_variant_if_unsent_def send_variant_valid send_variant_results)

theorem dispatch_guard_is_in_the_caller_witness:
  "''A'' \<in> set (sent_flags (ready_state\<lparr>sent_flags := [''A'']\<rparr>))
   \<and> send_variant_if_unsent accepting_env (ready_state\<lparr>sent_flags := [''A'']\<rparr>) ''A'' fresh_world
       = (ready_state\<lparr>sent_flags := [''A'']\<rparr>, fresh_world)
   \<and> map_of (ab_test_groups (ready_state\<lparr>sent_flags := [''A'']\<rparr>)) ''A'' = Some two_recipients
   \<and> map_of (email_variants (ready_state\<lparr>sent_flags := [''A'']\<rparr>)) ''A'' = Some hello_content
   \<and> use_sendgrid accepting_env
   \<and> length (outbox (snd (send_variant accepting_env (ready_state\<lparr>sent_flags := [''A'']\<rparr>)
        ''A'' fresh_world))) = 2
   \<and> map_of (opt_dict (send_results (fst (send_variant accepting_env
        (ready_state\<lparr>sent_flags := [''A'']\<rparr>) ''A'' fresh_world)))) ''A''
       = Some (batch_of accepting_env (campaign_id (ready_state\<lparr>sent_flags := [''A'']\<rparr>)) ''A''
                 two_recipients hello_content fresh_world)
   \<and> map_option b_sent (map_of (opt_dict (send_results (fst (send_variant accepting_env
        (ready_state\<lparr>sent_flags := [''A'']\<rparr>) ''A'' fresh_world)))) ''A'') = Some 2"
proof -
  let ?s = "ready_state\<lparr>sent_flags := [''A'']\<rparr>"
  have h1: "''A'' \<in> set (sent_flags ?s)" by simp
  have h2: "map_of (ab_test_groups ?s) ''A'' = Some two_recipients"
    and h3: "map_of (email_variants ?s) ''A'' = Some hello_content"
    by (simp_all add: ready_state_A)
  have h4: "use_sendgrid accepting_env" by (simp add: accepting_env_def)
  have o: "outbox fresh_world = []" by (simp add: fresh_world_def)
  note th = dispatch_guard_is_in_the_caller[of "''A''" ?s accepting_env fresh_world]
  have g: "send_variant_if_unsent accepting_env ?s ''A'' fresh_world = (?s, fresh_world)"
    using th h1 by blast
  have v: "outbox (snd (send_variant accepting_env ?s ''A'' fresh_world))
             = outbox fresh_world @ requests_of accepting_env (campaign_id ?s) ''A''
                 two_recipients hello_content"
    and r: "map_of (opt_dict (send_results (fst (send_variant accepting_env ?s ''A''
               fresh_world)))) ''A''
             = Some (batch_of accepting_env (campaign_id ?s) ''A'' two_recipients hello_content
                 fresh_world)"
    using th h2 h3 ready_state_A(2,4) by blast+
  have l: "length (outbox (snd (send_variant accepting_env ?s ''A'' fresh_world))) = 2"
    by (simp add: v o ready_state_A(5))
  have f: "filter has_email two_recipients = two_recipients"
    by (simp add: two_recipients_def has_email_def dict_get_def)
  have c0: "clock fresh_world = 0" by (simp add: fresh_world_def)
  have b: "b_sent (batch_of accepting_env (campaign_id ready_state) ''A'' two_recipients
             hello_content fresh_world) = 2"
    unfolding batch_of_def using h4
    by (simp add: send_batch_b_sent f c0)
       (simp add: two_recipients_def accepting_env_def send_email_def)
  have rb: "map_option b_sent (map_of (opt_dict (send_results (fst (send_variant accepting_env
        ?s ''A'' fresh_world)))) ''A'') = Some 2"
    by (simp add: r b)
  show ?thesis by (intro conjI h1 g h2 h3 h4 l r rb)
qed

text \<open>
  A client that accepts the first two messages it is given and then reports an exceeded
  quota.
\<close>

definition quota_client :: "nat \<Rightarrow> send_request \<Rightarrow> client_response" where
  "quota_client k rq = (if k < 2 then Response 202 ''msg'' else ClientRaises ''quota exceeded'')"

definition quota_env :: env where
  "quota_env = accepting_env\<lparr>client := quota_client\<rparr>"

lemma quota_all_fail:
  "2 \<le> k \<Longrightarrow> filter (\<lambda>x. success (snd x)) (outcomes quota_client s b v cid k rs) = []"
  by (induction rs arbitrary: k) (simp_all add: quota_client_def send_email_def)

text \<open>
  Variant A is sent twice in a row.  After the first call its flag is set, two requests
  are in the outbox and its send results count two sent.  The second call sends both
  again, and the send results of A then count none sent: neither the world nor the
  record of the label stays as it was.
\<close>

theorem send_variant_twice_counterexample:
  "''A'' \<in> set (sent_flags (fst (send_variant quota_env ready_state ''A'' fresh_world)))
   \<and> length (outbox (snd (send_variant quota_env ready_state ''A'' fresh_world))) = 2
   \<and> map_option b_sent (map_of (opt_dict (send_results
        (fst (send_variant quota_env ready_state ''A'' fresh_world)))) ''A'') = Some 2
   \<and> length (outbox (snd (send_variant quota_env
        (fst (send_variant quota_env ready_state ''A'' fresh_world)) ''A''
        (snd (send_variant quota_env ready_state ''A'' fresh_world))))) = 4
   \<and> map_option b_sent (map_of (opt_dict (send_results (fst (send_variant quota_env
        (fst (send_variant quota_env ready_state ''A'' fresh_world)) ''A''
        (snd (send_variant quota_env ready_state ''A'' fresh_world)))))) ''A'') = Some 0
   \<and> fst (send_variant quota_env
        (fst (send_variant quota_env ready_state ''A'' fresh_world)) ''A''
        (snd (send_variant quota_env ready_state ''A'' fresh_world)))
       \<noteq> fst (send_variant quota_env ready_state ''A'' fresh_world)"
proof -
  let ?r1 = "send_variant quota_env ready_state ''A'' fresh_world"
  let ?r2 = "send_variant quota_env (fst ?r1) ''A'' (snd ?r1)"
  have sg: "use_sendgrid quota_env" "client quota_env = quota_client"
    "sandbox_mode quota_env = False"
    by (simp_all add: quota_env_def accepting_env_def)
  have rq: "length (requests_of quota_env cid ''A'' two_recipients hello_content) = 2" for cid
    by (simp add: requests_of_def sg two_recipients_def has_email_def dict_get_def)
  have f: "filter has_email two_recipients = two_recipients"
    by (simp add: two_recipients_def has_email_def dict_get_def)
  have o: "outbox fresh_world = []" and c0: "clock fresh_world = 0"
    by (simp_all add: fresh_world_def)
  have l2: "length two_recipients = 2" by (simp add: two_recipients_def)
  note v1 = send_variant_valid[OF ready_state_A(1-4), of quota_env fresh_world]
  note s1 = send_variant_results(1)[OF ready_state_A(1-4), of quota_env fresh_world]
  have a: "''A'' \<in> set (sent_flags (fst ?r1))" by (rule v1(2))
  have b: "length (outbox (snd ?r1)) = 2" by (simp add: v1(1) rq o)
  have b1: "b_sent (batch_of quota_env (campaign_id ready_state) ''A'' two_recipients
              hello_content fresh_world) = 2"
    unfolding batch_of_def
    by (simp add: sg send_batch_b_sent f c0)
       (simp add: two_recipients_def quota_client_def send_email_def)
  have r1: "map_option b_sent (map_of (opt_dict (send_results (fst ?r1))) ''A'') = Some 2"
    by (simp add: s1 b1)
  have unf: "?r1 = dispatch quota_env ready_state ''A'' two_recipients hello_content fresh_world"
    by (rule send_variant_unfinished[OF ready_state_A(1-4)])
       (simp add: ready_state_def initial_state_def)
  have ck: "2 \<le> clock (snd ?r1)"
    unfolding unf
    using dispatch_clock[OF sg(1), of fresh_world two_recipients ready_state "''A''" hello_content]
    by (simp add: f c0 l2)
  have g: "map_of (ab_test_groups (fst ?r1)) ''A'' = Some two_recipients"
    and e: "map_of (email_variants (fst ?r1)) ''A'' = Some hello_content"
    by (simp_all add: v1(3,4) ready_state_A)
  note v2 = send_variant_valid[OF g ready_state_A(2) e ready_state_A(4), of quota_env "snd ?r1"]
  note s2 = send_variant_results(1)[OF g ready_state_A(2) e ready_state_A(4),
      of quota_env "snd ?r1"]
  have c: "length (outbox (snd ?r2)) = 4" by (simp add: v2(1) b rq)
  have b2: "b_sent (batch_of quota_env (campaign_id (fst ?r1)) ''A'' two_recipients
              hello_content (snd ?r1)) = 0"
    unfolding batch_of_def
    by (simp add: sg send_batch_b_sent f quota_all_fail[OF ck])
  have r2: "map_option b_sent (map_of (opt_dict (send_results (fst ?r2))) ''A'') = Some 0"
    by (simp add: s2 b2)
  have d: "fst ?r2 \<noteq> fst ?r1"
  proof
    assume "fst ?r2 = fst ?r1"
    then have "map_option b_sent (map_of (opt_dict (send_results (fst ?r2))) ''A'')
        = map_option b_sent (map_of (opt_dict (send_results (fst ?r1))) ''A'')" by simp
    then show False unfolding r1 r2 by simp
  qed
  show ?thesis by (intro conjI a b r1 c r2 d)
qed

text \<open>
  The ready campaign with every variant's check failed: variant A is sent all the same,
  with the same two requests.
\<close>

theorem send_variant_ignores_deliverability_check_witness:
  "snd (send_variant accepting_env
          (ready_state\<lparr>deliverability_check :=
             [(''A'', \<lparr>passed = False, recommendations = []\<rparr>),
              (''B'', \<lparr>passed = False, recommendations = []\<rparr>)]\<rparr>) ''A'' fresh_world)
     = snd (send_variant accepting_env ready_state ''A'' fresh_world)
   \<and> length (outbox (snd (send_variant accepting_env
          (ready_state\<lparr>deliverability_check :=
             [(''A'', \<lparr>passed = False, recommendations = []\<rparr>),
              (''B'', \<lparr>passed = False, recommendations = []\<rparr>)]\<rparr>) ''A'' fresh_world))) = 2"
proof -
  have o: "outbox fresh_world = []" by (simp add: fresh_world_def)
  have "length (outbox (snd (send_variant accepting_env ready_state ''A'' fresh_world))) = 2"
    by (simp add: send_variant_valid(1)[OF ready_state_A(1-4)] ready_state_A(5) o)
  then show ?thesis
    using send_variant_ignores_deliverability_check[where env = accepting_env
        and state = ready_state and variant = "''A''" and w = fresh_world
        and d = "[(''A'', \<lparr>passed = False, recommendations = []\<rparr>),
          (''B'', \<lparr>passed = False, recommendations = []\<rparr>)]"]
    by simp
qed

end
